theory Spec2Isabelle
  imports Complex_Main "HOL-Library.Sublist"
begin

section \<open>Python values used by the trainer\<close>

text \<open>
  The trainer (\<^verbatim>\<open>src/trainer.py\<close>) is modelled with explicit state passing. Exceptions are
  values of \<open>error\<close>. A Python float is a finite value, an infinity or NaN; the finite
  values are real numbers, so that rounding is the one thing left out.
\<close>

datatype error =
    KeyError string
  | ZeroDivisionError
  | RuntimeError string
  | ValueError string

datatype pyfloat = NegInf | Fin real | PosInf | NaN

text \<open>Python's \<^verbatim>\<open>a > b\<close> on floats: every comparison with NaN is false.\<close>

fun fgt :: "pyfloat \<Rightarrow> pyfloat \<Rightarrow> bool" where
  "fgt NaN _ = False"
| "fgt _ NaN = False"
| "fgt NegInf _ = False"
| "fgt _ NegInf = True"
| "fgt _ PosInf = False"
| "fgt PosInf _ = True"
| "fgt (Fin a) (Fin b) = (b < a)"

fun fadd :: "pyfloat \<Rightarrow> pyfloat \<Rightarrow> pyfloat" where
  "fadd NaN _ = NaN"
| "fadd _ NaN = NaN"
| "fadd NegInf PosInf = NaN"
| "fadd PosInf NegInf = NaN"
| "fadd NegInf _ = NegInf"
| "fadd _ NegInf = NegInf"
| "fadd PosInf _ = PosInf"
| "fadd _ PosInf = PosInf"
| "fadd (Fin a) (Fin b) = Fin (a + b)"

fun fhalf :: "pyfloat \<Rightarrow> pyfloat" where
  "fhalf (Fin a) = Fin (a / 2)"
| "fhalf x = x"

text \<open>
  A float divided by a number that is not zero (the callers exclude a zero divisor: line 181
  raises before dividing, line 194 adds 1e-6 to a count).
\<close>

fun float_div :: "pyfloat \<Rightarrow> real \<Rightarrow> pyfloat" where
  "float_div (Fin x) d = Fin (x / d)"
| "float_div PosInf d = (if 0 < d then PosInf else NegInf)"
| "float_div NegInf d = (if 0 < d then NegInf else PosInf)"
| "float_div NaN d = NaN"

text \<open>\<^verbatim>\<open>total = 0.0\<close> followed by \<^verbatim>\<open>total += x\<close> for every \<open>x\<close>, in order.\<close>

definition fsum :: "pyfloat list \<Rightarrow> pyfloat" where
  "fsum xs = foldl fadd (Fin 0) xs"

text \<open>Elementwise tensor division: a zero divisor gives NaN or an infinity, never an exception.\<close>

definition fdiv :: "real \<Rightarrow> real \<Rightarrow> pyfloat" where
  "fdiv x y =
     (if y = 0 then (if x = 0 then NaN else if 0 < x then PosInf else NegInf)
      else Fin (x / y))"

text \<open>\<^verbatim>\<open>needle in hay\<close> on strings: \<open>needle\<close> occurs as a contiguous substring.\<close>

fun str_contains :: "string \<Rightarrow> string \<Rightarrow> bool" where
  "str_contains needle [] = (needle = [])"
| "str_contains needle (c # cs) = (prefix needle (c # cs) \<or> str_contains needle cs)"

text \<open>A dict is an association list in insertion order; \<^verbatim>\<open>d[k]\<close> raises KeyError.\<close>

definition getitem :: "(string \<times> 'v) list \<Rightarrow> string \<Rightarrow> error + 'v" where
  "getitem d k = (case map_of d k of None \<Rightarrow> Inl (KeyError k) | Some v \<Rightarrow> Inr v)"

section \<open>Similarity evaluator\<close>

type_synonym tensor1 = "real list"
type_synonym tensor2 = "real list list"

definition dot :: "tensor1 \<Rightarrow> tensor1 \<Rightarrow> real" where
  "dot u v = sum_list (map (\<lambda>(x, y). x * y) (zip u v))"

text \<open>\<^verbatim>\<open>einsum("ij,kj->ik", a, b)\<close>\<close>
definition einsum_ij_kj_ik :: "tensor2 \<Rightarrow> tensor2 \<Rightarrow> tensor2" where
  "einsum_ij_kj_ik a b = map (\<lambda>u. map (\<lambda>v. dot u v) b) a"

text \<open>\<^verbatim>\<open>einsum("ij,ij->i", a, a')\<close>\<close>
definition einsum_ij_ij_i :: "tensor2 \<Rightarrow> tensor2 \<Rightarrow> tensor1" where
  "einsum_ij_ij_i a a' = map (\<lambda>(u, v). dot u v) (zip a a')"

text \<open>\<^verbatim>\<open>einsum("i,j->ij", x, y)\<close>\<close>
definition einsum_i_j_ij :: "tensor1 \<Rightarrow> tensor1 \<Rightarrow> tensor2" where
  "einsum_i_j_ij x y = map (\<lambda>p. map (\<lambda>q. p * q) y) x"

definition tensor_div :: "tensor2 \<Rightarrow> tensor2 \<Rightarrow> pyfloat list list" where
  "tensor_div M N = map (\<lambda>(r, r'). map (\<lambda>(x, y). fdiv x y) (zip r r')) (zip M N)"

definition cosine_sim :: "tensor2 \<Rightarrow> tensor2 \<Rightarrow> pyfloat list list" where
  "cosine_sim a b =
     (let dot_product = einsum_ij_kj_ik a b;
          norm_a = map sqrt (einsum_ij_ij_i a a);
          norm_b = map sqrt (einsum_ij_ij_i b b);
          norm_product = einsum_i_j_ij norm_a norm_b
      in tensor_div dot_product norm_product)"

text \<open>numpy's \<^verbatim>\<open>diagonal()\<close> of an m-by-n matrix has \<open>min m n\<close> entries.\<close>

definition diagonal :: "'a list list \<Rightarrow> 'a list" where
  "diagonal M =
     map (\<lambda>i. M ! i ! i) [0 ..< min (length M) (case M of [] \<Rightarrow> 0 | r # _ \<Rightarrow> length r)]"

definition similarities :: "tensor2 \<Rightarrow> tensor2 \<Rightarrow> pyfloat list" where
  "similarities vectors_one vectors_two = diagonal (cosine_sim vectors_one vectors_two)"

text \<open>The cosine of two rows, as the specification writes it.\<close>

definition cosine :: "tensor1 \<Rightarrow> tensor1 \<Rightarrow> pyfloat" where
  "cosine u v = fdiv (dot u v) (sqrt (dot u u) * sqrt (dot v v))"

section \<open>Experiment, collaborators, state\<close>

type_synonym 'b loader = "'b list"
type_synonym 'b splits = "(string \<times> 'b loader) list"
type_synonym 'b loaders = "(string \<times> 'b splits) list"

record 'b experiment_t =
  data_loaders :: "'b loaders"
  train_datasets :: "string list"
  num_epochs :: int
  warmup_steps :: int

record schedule =
  num_warmup_steps :: int
  num_training_steps :: int

text \<open>
  What the trainer calls but does not define: the embedder and optimizer (\<open>'m\<close> is the state
  of model, optimizer and gradient scaler together; \<open>loss_of\<close> is the embedder's loss in
  training mode, \<open>val_loss_of\<close> its loss in evaluation mode without gradients), the
  correlation functions of scipy, the schedule builder of the transformers library, the
  distributed sampler of torch, and \<open>torch_save\<close>, which tells for a path whether writing the
  checkpoint there raises (a run name with a slash names a directory that need not exist).
  Device placement and the switches between training and evaluation mode leave no event. A
  loader is the list of batches it yields. An event records a call that was made: \<open>Evaluate\<close>
  and \<open>Save_state\<close> are in the trace also when the call raised.
\<close>

record ('m, 'b) collaborators =
  loss_of :: "'m \<Rightarrow> 'b \<Rightarrow> pyfloat"
  val_loss_of :: "'m \<Rightarrow> 'b \<Rightarrow> pyfloat"
  grads_overflow :: "'m \<Rightarrow> 'b \<Rightarrow> bool"
  optimizer_step :: "'m \<Rightarrow> 'b \<Rightarrow> 'm"
  embeddings1 :: "'m \<Rightarrow> 'b \<Rightarrow> tensor2"
  embeddings2 :: "'m \<Rightarrow> 'b \<Rightarrow> tensor2"
  labels_of :: "'b \<Rightarrow> real list"
  pearsonr :: "pyfloat list \<Rightarrow> real list \<Rightarrow> error + pyfloat"
  spearmanr :: "pyfloat list \<Rightarrow> real list \<Rightarrow> error + pyfloat"
  get_linear_schedule_with_warmup :: "int \<Rightarrow> int \<Rightarrow> error + schedule"
  distributed_loader :: "int \<Rightarrow> int \<Rightarrow> bool \<Rightarrow> 'b loader \<Rightarrow> 'b loader"
  torch_save :: "string \<Rightarrow> error option"

datatype event =
    Print_epoch int int
  | Print_train_val string pyfloat pyfloat
  | Print_train_noval string pyfloat
  | Print_stsb string pyfloat pyfloat
  | Print_blank
  | Print_saved string
  | Add_scalar string string pyfloat int
  | Evaluate
  | Makedirs
  | Save_state string
  | Set_epoch string int
  | Val_forward
  | Zero_grad
  | Forward
  | Scale_loss
  | Backward
  | Scaler_step bool
  | Scaler_update
  | Scheduler_step
  | Init_process_group int int
  | Set_device int
  | Writer_open string
  | Writer_close
  | Destroy_process_group

record 'm state =
  embedder :: 'm
  global_step :: int
  best_stsb_score :: pyfloat
  scheduler_steps :: int
  total_train_loss :: pyfloat
  trace :: "event list"

datatype 's outcome = Done 's | Raised error 's

fun final :: "'s outcome \<Rightarrow> 's" where
  "final (Done s) = s"
| "final (Raised e s) = s"

fun for_each :: "('a \<Rightarrow> 's \<Rightarrow> 's outcome) \<Rightarrow> 'a list \<Rightarrow> 's \<Rightarrow> 's outcome" where
  "for_each body [] s = Done s"
| "for_each body (x # xs) s =
     (case body x s of Done s' \<Rightarrow> for_each body xs s' | Raised e s' \<Rightarrow> Raised e s')"

definition emit :: "event list \<Rightarrow> 'm state \<Rightarrow> 'm state" where
  "emit evs s = s\<lparr>trace := trace s @ evs\<rparr>"

section \<open>The functions of the trainer\<close>

text \<open>
  \<^verbatim>\<open>evaluate\<close>: collects both embeddings and the labels of every batch of
  \<^verbatim>\<open>data_loader["stsb"]["validation"]\<close>, concatenates them (\<^verbatim>\<open>torch.cat\<close> of an empty list
  raises), and correlates the diagonal of the cosine matrix with the labels.
\<close>

definition evaluate :: "('m, 'b) collaborators \<Rightarrow> 'm \<Rightarrow> 'b loaders \<Rightarrow> error + (pyfloat \<times> pyfloat)" where
  "evaluate env model data_loader =
     (case getitem data_loader ''stsb'' of Inl e \<Rightarrow> Inl e
      | Inr stsb \<Rightarrow>
     (case getitem stsb ''validation'' of Inl e \<Rightarrow> Inl e
      | Inr batches \<Rightarrow>
        if batches = [] then Inl (RuntimeError ''torch.cat'')
        else
          let vectors_one = concat (map (embeddings1 env model) batches);
              vectors_two = concat (map (embeddings2 env model) batches);
              labels = concat (map (labels_of env) batches);
              sims = similarities vectors_one vectors_two
          in (case pearsonr env sims labels of Inl e \<Rightarrow> Inl e
              | Inr eval_pearson_cosine \<Rightarrow>
             (case spearmanr env sims labels of Inl e \<Rightarrow> Inl e
              | Inr eval_spearman_cosine \<Rightarrow> Inr (eval_pearson_cosine, eval_spearman_cosine)))))"

text \<open>\<^verbatim>\<open>initialize_writer\<close>: a writer exists exactly on the master.\<close>

definition initialize_writer :: "string \<Rightarrow> bool \<Rightarrow> bool \<times> event list" where
  "initialize_writer name is_master = (if is_master then (True, [Writer_open name]) else (False, []))"

text \<open>
  \<^verbatim>\<open>save_best_model\<close>: the directory is made, the state is saved under the name-derived
  path, and the message is printed once the save has returned.
\<close>

definition save_best_model ::
    "('m, 'b) collaborators \<Rightarrow> string \<Rightarrow> 'm state \<Rightarrow> 'm state outcome" where
  "save_best_model env name s =
     (case torch_save env (''weights/'' @ name @ ''.pt'') of
        None \<Rightarrow> Done (emit [Makedirs, Save_state name, Print_saved name] s)
      | Some e \<Rightarrow> Raised e (emit [Makedirs, Save_state name] s))"

definition setup_scheduler ::
    "(int \<Rightarrow> int \<Rightarrow> error + schedule) \<Rightarrow> int \<Rightarrow> int \<Rightarrow> error + schedule" where
  "setup_scheduler build n_warmup n_total = build n_warmup n_total"

definition log_metrics :: "string \<Rightarrow> string \<Rightarrow> pyfloat \<Rightarrow> int \<Rightarrow> event" where
  "log_metrics dataset_name metric_name v step = Add_scalar dataset_name metric_name v step"

text \<open>Lines 108 to 113: the step budget skips a dataset without a train split.\<close>

fun total_steps_per_epoch :: "'b loaders \<Rightarrow> string list \<Rightarrow> error + int" where
  "total_steps_per_epoch data [] = Inr 0"
| "total_steps_per_epoch data (dataset_name # rest) =
     (case getitem data dataset_name of Inl e \<Rightarrow> Inl e
      | Inr splits \<Rightarrow>
        (case total_steps_per_epoch data rest of Inl e \<Rightarrow> Inl e
         | Inr n \<Rightarrow>
             Inr ((case map_of splits ''train'' of None \<Rightarrow> 0 | Some l \<Rightarrow> int (length l)) + n)))"

text \<open>Lines 158 to 179: one training batch.\<close>

definition train_batch ::
    "('m, 'b) collaborators \<Rightarrow> bool \<Rightarrow> int \<Rightarrow> string \<Rightarrow> 'b \<Rightarrow> 'm state \<Rightarrow> 'm state" where
  "train_batch env writer rank dataset_name batch s =
     (let train_loss = loss_of env (embedder s) batch;
          applied = \<not> grads_overflow env (embedder s) batch;
          step = global_step s + 1
      in s\<lparr>embedder := (if applied then optimizer_step env (embedder s) batch else embedder s),
            global_step := step,
            scheduler_steps := scheduler_steps s + 1,
            total_train_loss := fadd (total_train_loss s) train_loss,
            trace := trace s
              @ [Zero_grad, Forward, Scale_loss, Backward, Scaler_step applied,
                 Scaler_update, Scheduler_step]
              @ (if writer \<and> rank = 0
                 then [log_metrics dataset_name ''train_loss'' train_loss step]
                 else [])\<rparr>)"

text \<open>Lines 222 to 227: the checkpoint decision.\<close>

definition checkpoint_check ::
    "('m, 'b) collaborators \<Rightarrow> string \<Rightarrow> pyfloat \<Rightarrow> 'm state \<Rightarrow> 'm state outcome" where
  "checkpoint_check env name current_stsb_score s =
     (if fgt current_stsb_score (best_stsb_score s)
      then save_best_model env name (s\<lparr>best_stsb_score := current_stsb_score\<rparr>)
      else Done s)"

text \<open>Lines 211 to 227: evaluation, logging and checkpointing on the coordinating process.\<close>

definition evaluation_phase ::
    "('m, 'b) collaborators \<Rightarrow> 'b loaders \<Rightarrow> string \<Rightarrow> bool \<Rightarrow> int \<Rightarrow> string
      \<Rightarrow> 'm state \<Rightarrow> 'm state outcome" where
  "evaluation_phase env data name writer rank dataset_name s =
     (if writer \<and> rank = 0 then
        (case evaluate env (embedder s) data of
           Inl e \<Rightarrow> Raised e (emit [Evaluate] s)
         | Inr (r0, r1) \<Rightarrow>
             checkpoint_check env name (fhalf (fadd r0 r1))
               (emit [Evaluate, Print_stsb dataset_name r0 r1,
                      log_metrics dataset_name ''pearsonr'' r0 (global_step s),
                      log_metrics dataset_name ''spearmanr'' r1 (global_step s)] s))
      else Done s)"

definition avg_train_loss :: "pyfloat \<Rightarrow> nat \<Rightarrow> pyfloat" where
  "avg_train_loss total_loss n = float_div total_loss (real n)"

definition avg_val_loss :: "pyfloat \<Rightarrow> nat \<Rightarrow> pyfloat" where
  "avg_val_loss total_loss n = float_div total_loss (real n + 1 / 1000000)"

text \<open>
  Lines 183 to 209: the validation pass (one forward call for every validation batch, on every
  rank) and the loss message.
\<close>

definition validation_phase ::
    "('m, 'b) collaborators \<Rightarrow> bool \<Rightarrow> int \<Rightarrow> string \<Rightarrow> pyfloat \<Rightarrow> 'b loader option
      \<Rightarrow> 'm state \<Rightarrow> 'm state" where
  "validation_phase env writer rank dataset_name avg_train val_loader s =
     (case val_loader of
        Some vl \<Rightarrow>
          (let total_val_loss = fsum (map (val_loss_of env (embedder s)) vl);
               avg_val = avg_val_loss total_val_loss (length vl);
               s1 = emit (replicate (length vl) Val_forward) s
           in if writer \<and> rank = 0
              then emit [Print_train_val dataset_name avg_train avg_val,
                         log_metrics dataset_name ''val_loss'' avg_val (global_step s)] s1
              else s1)
      | None \<Rightarrow>
          (if writer \<and> rank = 0 then emit [Print_train_noval dataset_name avg_train] s else s))"

text \<open>Lines 133 to 155: the first split whose name contains "validation", resharded under DDP.\<close>

definition find_val_loader ::
    "('m, 'b) collaborators \<Rightarrow> bool \<Rightarrow> int \<Rightarrow> int \<Rightarrow> 'b splits \<Rightarrow> 'b loader option" where
  "find_val_loader env is_ddp world_size rank splits =
     (case filter (str_contains ''validation'') (map fst splits) of
        [] \<Rightarrow> None
      | val_loader_key # _ \<Rightarrow>
          (case map_of splits val_loader_key of
             None \<Rightarrow> None
           | Some vl \<Rightarrow>
               Some (if is_ddp then distributed_loader env world_size rank False vl else vl)))"

text \<open>Lines 130 to 170: the sampler's epoch is set under DDP, then every training batch is run.\<close>

definition after_training ::
    "('m, 'b) collaborators \<Rightarrow> bool \<Rightarrow> bool \<Rightarrow> int \<Rightarrow> int \<Rightarrow> string \<Rightarrow> 'b loader
      \<Rightarrow> 'm state \<Rightarrow> 'm state" where
  "after_training env writer is_ddp rank epoch dataset_name train_loader s =
     fold (train_batch env writer rank dataset_name) train_loader
       ((if is_ddp then emit [Set_epoch dataset_name epoch] s else s)\<lparr>total_train_loss := Fin 0\<rparr>)"

text \<open>Lines 126 to 227: the body of the loop over dataset names.\<close>

definition dataset_epoch ::
    "('m, 'b) collaborators \<Rightarrow> 'b loaders \<Rightarrow> string \<Rightarrow> bool \<Rightarrow> bool \<Rightarrow> int \<Rightarrow> int \<Rightarrow> int
      \<Rightarrow> string \<Rightarrow> 'm state \<Rightarrow> 'm state outcome" where
  "dataset_epoch env data name writer is_ddp world_size rank epoch dataset_name s =
     (case getitem data dataset_name of Inl e \<Rightarrow> Raised e s
      | Inr splits \<Rightarrow>
     (case getitem splits ''train'' of Inl e \<Rightarrow> Raised e s
      | Inr train_loader \<Rightarrow>
        let val_loader = find_val_loader env is_ddp world_size rank splits;
            s2 = after_training env writer is_ddp rank epoch dataset_name train_loader s
        in if train_loader = [] then Raised ZeroDivisionError s2
           else
             evaluation_phase env data name writer rank dataset_name
               (validation_phase env writer rank dataset_name
                  (avg_train_loss (total_train_loss s2) (length train_loader)) val_loader s2)))"

text \<open>Lines 121 to 230: one epoch.\<close>

definition epoch_body ::
    "('m, 'b) collaborators \<Rightarrow> 'b experiment_t \<Rightarrow> string \<Rightarrow> bool \<Rightarrow> bool \<Rightarrow> int \<Rightarrow> int
      \<Rightarrow> nat \<Rightarrow> 'm state \<Rightarrow> 'm state outcome" where
  "epoch_body env experiment name writer is_ddp world_size rank epoch s =
     (case for_each
             (dataset_epoch env (data_loaders experiment) name writer is_ddp world_size rank
                (int epoch))
             (train_datasets experiment)
             (if rank = 0 then emit [Print_epoch (int epoch + 1) (num_epochs experiment)] s else s)
      of Done s' \<Rightarrow> Done (if rank = 0 then emit [Print_blank] s' else s')
       | Raised e s' \<Rightarrow> Raised e s')"

definition init_state :: "'m \<Rightarrow> 'm state" where
  "init_state m =
     \<lparr>embedder = m, global_step = 0, best_stsb_score = NegInf, scheduler_steps = 0,
      total_train_loss = Fin 0, trace = []\<rparr>"

definition total_steps :: "'b experiment_t \<Rightarrow> error + int" where
  "total_steps experiment =
     (case total_steps_per_epoch (data_loaders experiment) (train_datasets experiment) of
        Inl e \<Rightarrow> Inl e
      | Inr n \<Rightarrow> Inr (n * num_epochs experiment))"

definition train_loop ::
    "('m, 'b) collaborators \<Rightarrow> 'm \<Rightarrow> 'b experiment_t \<Rightarrow> string \<Rightarrow> bool \<Rightarrow> bool \<Rightarrow> int \<Rightarrow> int
      \<Rightarrow> 'm state outcome" where
  "train_loop env m experiment name writer is_ddp world_size rank =
     (case total_steps experiment of Inl e \<Rightarrow> Raised e (init_state m)
      | Inr n_total \<Rightarrow>
     (case setup_scheduler (get_linear_schedule_with_warmup env) (warmup_steps experiment) n_total of
        Inl e \<Rightarrow> Raised e (init_state m)
      | Inr scheduler \<Rightarrow>
          for_each (epoch_body env experiment name writer is_ddp world_size rank)
            [0 ..< nat (num_epochs experiment)] (init_state m)))"

text \<open>\<^verbatim>\<open>train\<close>: the single-process entry point (rank 0, with a writer).\<close>

definition train ::
    "('m, 'b) collaborators \<Rightarrow> 'm \<Rightarrow> 'b experiment_t \<Rightarrow> string \<Rightarrow> 'm state outcome" where
  "train env m experiment name =
     (case initialize_writer name True of
        (writer, opened) \<Rightarrow>
          (case train_loop env m experiment name writer False 1 0 of
             Raised e s \<Rightarrow> Raised e (s\<lparr>trace := opened @ trace s\<rparr>)
           | Done s \<Rightarrow>
               Done (s\<lparr>trace := opened @ trace s @ (if writer then [Writer_close] else [])\<rparr>)))"

text \<open>\<^verbatim>\<open>d[k] = v\<close>: an existing key keeps its position.\<close>

fun setitem :: "(string \<times> 'v) list \<Rightarrow> string \<Rightarrow> 'v \<Rightarrow> (string \<times> 'v) list" where
  "setitem [] k v = [(k, v)]"
| "setitem ((k', v') # d) k v = (if k' = k then (k, v) # d else (k', v') # setitem d k v)"

text \<open>Lines 288 to 300: every training dataset's train loader is replaced by a sharded one.\<close>

fun replace_train_loaders ::
    "('m, 'b) collaborators \<Rightarrow> int \<Rightarrow> int \<Rightarrow> 'b loaders \<Rightarrow> string list \<Rightarrow> error + 'b loaders" where
  "replace_train_loaders env world_size rank data [] = Inr data"
| "replace_train_loaders env world_size rank data (dataset_name # rest) =
     (case getitem data dataset_name of Inl e \<Rightarrow> Inl e
      | Inr splits \<Rightarrow>
     (case getitem splits ''train'' of Inl e \<Rightarrow> Inl e
      | Inr train_loader \<Rightarrow>
          replace_train_loaders env world_size rank
            (setitem data dataset_name
               (setitem splits ''train'' (distributed_loader env world_size rank True train_loader)))
            rest))"

text \<open>
  \<^verbatim>\<open>train_worker\<close>: joins the process group, binds the device, opens the writer on the
  master, replaces the train loaders, runs the loop, and then closes the writer and destroys
  the process group. There is no \<^verbatim>\<open>try\<close> in the source: an exception leaves the function
  at the statement that raised it.
\<close>

definition train_worker ::
    "('m, 'b) collaborators \<Rightarrow> int \<Rightarrow> int \<Rightarrow> 'm \<Rightarrow> 'b experiment_t \<Rightarrow> string \<Rightarrow> 'm state outcome" where
  "train_worker env rank world_size m experiment name =
     (let is_master = (rank = 0) in
      case initialize_writer name is_master of
        (writer, opened) \<Rightarrow>
          let before = [Init_process_group rank world_size, Set_device rank] @ opened
                         @ (if is_master then [Makedirs] else [])
          in (case replace_train_loaders env world_size rank (data_loaders experiment)
                     (train_datasets experiment) of
                Inl e \<Rightarrow> Raised e (emit before (init_state m))
              | Inr data \<Rightarrow>
                  (case train_loop env m (experiment\<lparr>data_loaders := data\<rparr>) name writer True
                          world_size rank of
                     Raised e s \<Rightarrow> Raised e (s\<lparr>trace := before @ trace s\<rparr>)
                   | Done s \<Rightarrow>
                       Done (s\<lparr>trace := before @ trace s
                                @ (if writer \<and> is_master then [Writer_close] else [])
                                @ [Destroy_process_group]\<rparr>))))"

section \<open>Vocabulary of the properties\<close>

text \<open>The side effects reserved to the coordinating process: printing, metric entries,
  the similarity evaluation, and everything that writes a checkpoint or a log directory.\<close>

fun gated :: "event \<Rightarrow> bool" where
  "gated (Print_epoch _ _) = True"
| "gated (Print_train_val _ _ _) = True"
| "gated (Print_train_noval _ _) = True"
| "gated (Print_stsb _ _ _) = True"
| "gated Print_blank = True"
| "gated (Print_saved _) = True"
| "gated (Add_scalar _ _ _ _) = True"
| "gated Evaluate = True"
| "gated Makedirs = True"
| "gated (Save_state _) = True"
| "gated (Writer_open _) = True"
| "gated Writer_close = True"
| "gated _ = False"

text \<open>The group lifecycle calls, which only \<^verbatim>\<open>train_worker\<close> makes.\<close>

fun lifecycle :: "event \<Rightarrow> bool" where
  "lifecycle (Init_process_group _ _) = True"
| "lifecycle (Set_device _) = True"
| "lifecycle (Writer_open _) = True"
| "lifecycle Writer_close = True"
| "lifecycle Destroy_process_group = True"
| "lifecycle _ = False"

text \<open>The train split of a dataset, when both the dataset and the split exist.\<close>

definition train_split :: "'b loaders \<Rightarrow> string \<Rightarrow> 'b loader option" where
  "train_split data dataset_name =
     (case map_of data dataset_name of None \<Rightarrow> None | Some splits \<Rightarrow> map_of splits ''train'')"

definition train_len :: "'b loaders \<Rightarrow> string \<Rightarrow> int" where
  "train_len data dataset_name =
     (case train_split data dataset_name of None \<Rightarrow> 0 | Some l \<Rightarrow> int (length l))"

text \<open>What the training loop may emit on a given rank: no lifecycle call, and a gated side
  effect only on rank 0.\<close>

definition quiet :: "int \<Rightarrow> event \<Rightarrow> bool" where
  "quiet rank e = (\<not> lifecycle e \<and> (gated e \<longrightarrow> rank = 0))"

text \<open>The number of training batches processed so far, read off the trace.\<close>

definition batches_processed :: "'m state \<Rightarrow> nat" where
  "batches_processed s = length (filter (\<lambda>e. e = Zero_grad) (trace s))"

text \<open>What only a validation pass leaves in the trace.\<close>

fun validation_event :: "event \<Rightarrow> bool" where
  "validation_event Val_forward = True"
| "validation_event (Print_train_val _ _ _) = True"
| "validation_event (Add_scalar _ metric _ _) = (metric = ''val_loss'')"
| "validation_event _ = False"

text \<open>
  The losses the embedder returns on the batches of one training pass that starts from model
  state \<open>m\<close>: each batch is seen by the state the batches before it have left.
\<close>

fun train_losses :: "('m, 'b) collaborators \<Rightarrow> 'm \<Rightarrow> 'b list \<Rightarrow> pyfloat list" where
  "train_losses env m [] = []"
| "train_losses env m (b # bs) =
     loss_of env m b
       # train_losses env (if grads_overflow env m b then m else optimizer_step env m b) bs"

text \<open>
  The checkpoint selector as the specification words it, for a sequence of combined scores:
  after every score comes a write exactly when the score is strictly greater than the best of
  the scores before it, the best starting at negative infinity.
\<close>

datatype mark = Observed pyfloat | Written

fun selector :: "pyfloat \<Rightarrow> pyfloat list \<Rightarrow> mark list" where
  "selector best [] = []"
| "selector best (c # cs) =
     (if fgt c best then Observed c # Written # selector c cs
      else Observed c # selector best cs)"

fun running_best :: "pyfloat \<Rightarrow> pyfloat list \<Rightarrow> pyfloat" where
  "running_best best [] = best"
| "running_best best (c # cs) = running_best (if fgt c best then c else best) cs"

text \<open>
  What a trace tells of the selector: every evaluation result that was printed gives the
  combined score (the mean of the two correlations), every call that saves the state is a
  write.
\<close>

fun mark_of :: "event \<Rightarrow> mark list" where
  "mark_of (Print_stsb _ r0 r1) = [Observed (fhalf (fadd r0 r1))]"
| "mark_of (Save_state _) = [Written]"
| "mark_of _ = []"

definition marks :: "event list \<Rightarrow> mark list" where
  "marks evs = concat (map mark_of evs)"

fun score_of :: "event \<Rightarrow> pyfloat list" where
  "score_of (Print_stsb _ r0 r1) = [fhalf (fadd r0 r1)]"
| "score_of _ = []"

definition scores :: "event list \<Rightarrow> pyfloat list" where
  "scores evs = concat (map score_of evs)"

text \<open>A later state whose trace is the earlier trace followed by events that all satisfy \<open>P\<close>.\<close>

definition appends :: "(event \<Rightarrow> bool) \<Rightarrow> 'm state \<Rightarrow> 'm state \<Rightarrow> bool" where
  "appends P s s' = (\<exists>evs. trace s' = trace s @ evs \<and> list_all P evs)"

text \<open>A state agrees with the selector: its trace shows the selector's writes for the scores
  it shows, and its tracker is the best of these scores.\<close>

definition tracked :: "'m state \<Rightarrow> bool" where
  "tracked s =
     (marks (trace s) = selector NegInf (scores (trace s))
      \<and> best_stsb_score s = running_best NegInf (scores (trace s)))"

section \<open>A small concrete run\<close>

text \<open>
  Collaborators for concrete runs: a batch is the loss it produces, the model state counts
  applied optimizer steps, no gradient overflows, both correlations are fixed, the schedule
  builder accepts every argument, the sharded loader of a one-process group is the loader
  itself, and a checkpoint can be written under every path without a second slash.
\<close>

definition demo_env :: "(nat, real) collaborators" where
  "demo_env =
     \<lparr>loss_of = (\<lambda>m b. Fin b),
      val_loss_of = (\<lambda>m b. Fin b),
      grads_overflow = (\<lambda>m b. False),
      optimizer_step = (\<lambda>m b. Suc m),
      embeddings1 = (\<lambda>m b. [[b, 1]]),
      embeddings2 = (\<lambda>m b. [[1, b]]),
      labels_of = (\<lambda>b. [b]),
      pearsonr = (\<lambda>sims labels. Inr (Fin (1 / 2))),
      spearmanr = (\<lambda>sims labels. Inr (Fin (1 / 4))),
      get_linear_schedule_with_warmup =
        (\<lambda>w t. Inr \<lparr>num_warmup_steps = w, num_training_steps = t\<rparr>),
      distributed_loader = (\<lambda>world_size rank shuffle l. l),
      torch_save = (\<lambda>path. if CHR ''/'' \<in> set (drop 8 path)
                           then Some (RuntimeError ''parent directory'') else None)\<rparr>"

definition demo_data :: "real loaders" where
  "demo_data =
     [(''nli'', [(''train'', [1, 2])]),
      (''stsb'', [(''train'', [3]), (''validation'', [4])])]"

definition demo_experiment :: "real experiment_t" where
  "demo_experiment =
     \<lparr>data_loaders = demo_data, train_datasets = [''nli''], num_epochs = 1, warmup_steps = 5\<rparr>"

text \<open>The same experiment without the benchmark dataset: the evaluation cannot find it.\<close>

definition demo_no_benchmark :: "real experiment_t" where
  "demo_no_benchmark =
     \<lparr>data_loaders = [(''nli'', [(''train'', [1, 2])])], train_datasets = [''nli''],
      num_epochs = 1, warmup_steps = 0\<rparr>"

section \<open>The similarity matrix and its diagonal\<close>

lemma length_cosine_sim: "length (cosine_sim a b) = length a"
  by (simp add: cosine_sim_def Let_def tensor_div_def einsum_ij_kj_ik_def einsum_i_j_ij_def
      einsum_ij_ij_i_def)

lemma cosine_sim_row:
  assumes "i < length a"
  shows "cosine_sim a b ! i = map (\<lambda>v. cosine (a ! i) v) b"
proof -
  have "cosine_sim a b ! i =
      map (\<lambda>(x, y). fdiv x y)
        (zip (map (dot (a ! i)) b)
           (map (\<lambda>q. sqrt (dot (a ! i) (a ! i)) * q) (map sqrt (map (\<lambda>v. dot v v) b))))"
    using assms
    by (simp add: cosine_sim_def Let_def tensor_div_def einsum_ij_kj_ik_def einsum_i_j_ij_def
        einsum_ij_ij_i_def zip_same_conv_map comp_def)
  also have "\<dots> = map (\<lambda>v. cosine (a ! i) v) b"
    by (simp add: zip_map_map zip_same_conv_map cosine_def comp_def)
  finally show ?thesis .
qed

lemma similarities_rowwise:
  assumes "length a = length b"
  shows "similarities a b = map (\<lambda>i. cosine (a ! i) (b ! i)) [0 ..< length a]"
proof (cases a)
  case Nil
  then show ?thesis
    by (simp add: similarities_def diagonal_def cosine_sim_def tensor_div_def
        einsum_ij_kj_ik_def einsum_i_j_ij_def einsum_ij_ij_i_def)
next
  case (Cons u a')
  then have pos: "0 < length a" by simp
  obtain r rs where M: "cosine_sim a b = r # rs"
    using pos length_cosine_sim [of a b] by (cases "cosine_sim a b") auto
  have "r = cosine_sim a b ! 0" using M by simp
  then have "length r = length b" using cosine_sim_row [OF pos, of b] by simp
  then have "diagonal (cosine_sim a b) = map (\<lambda>i. cosine_sim a b ! i ! i) [0 ..< length a]"
    using M assms length_cosine_sim [of a b] by (simp add: diagonal_def)
  also have "\<dots> = map (\<lambda>i. cosine (a ! i) (b ! i)) [0 ..< length a]"
    using assms by (simp add: cosine_sim_row)
  finally show ?thesis by (simp add: similarities_def)
qed

text \<open>
  C6. For matrices \<open>a\<close> (m rows) and \<open>b\<close> (n rows), \<open>cosine_sim a b\<close> has m rows of n
  entries; entry (i, j) is the dot product of row i of \<open>a\<close> and row j of \<open>b\<close> divided by
  the product of their Euclidean norms; the diagonal of the matrix of two equally long
  batches is row i of \<open>a\<close> against row i of \<open>b\<close>; and the evaluator hands exactly this
  diagonal, with the labels, to both correlations. Arithmetic is over the reals; a zero norm
  gives NaN, as the tensor division does.
\<close>

theorem cosine_sim_entries:
  "length (cosine_sim a b) = length a
   \<and> (\<forall>i < length a. length (cosine_sim a b ! i) = length b
        \<and> (\<forall>j < length b. cosine_sim a b ! i ! j
              = fdiv (dot (a ! i) (b ! j))
                  (sqrt (dot (a ! i) (a ! i)) * sqrt (dot (b ! j) (b ! j)))))
   \<and> (length a = length b \<longrightarrow>
        similarities a b
          = map (\<lambda>i. fdiv (dot (a ! i) (b ! i))
                         (sqrt (dot (a ! i) (a ! i)) * sqrt (dot (b ! i) (b ! i))))
              [0 ..< length a])
   \<and> (getitem data ''stsb'' = Inr stsb \<longrightarrow> getitem stsb ''validation'' = Inr batches \<longrightarrow>
      batches \<noteq> [] \<longrightarrow>
        evaluate env model data =
          (let sims = similarities (concat (map (embeddings1 env model) batches))
                        (concat (map (embeddings2 env model) batches));
               labels = concat (map (labels_of env) batches)
           in case pearsonr env sims labels of
                Inl e \<Rightarrow> Inl e
              | Inr p \<Rightarrow> (case spearmanr env sims labels of
                            Inl e \<Rightarrow> Inl e
                          | Inr r \<Rightarrow> Inr (p, r))))"
  using similarities_rowwise [of a b]
  by (simp add: length_cosine_sim cosine_sim_row cosine_def evaluate_def Let_def)

theorem cosine_sim_entries_witness:
  "length (cosine_sim [[3, 4], [1, 0]] [[4, 3], [0, 2]]) = 2
   \<and> cosine_sim [[3, 4], [1, 0]] [[4, 3], [0, 2]] ! 0 ! 1 = Fin (4 / 5)
   \<and> similarities [[3, 4], [1, 0]] [[4, 3], [0, 2]] = [Fin (24 / 25), Fin 0]
   \<and> evaluate (demo_env\<lparr>pearsonr := (\<lambda>sims labels. Inr (sims ! 0)),
                         spearmanr := (\<lambda>sims labels. Inr (Fin (real (length sims))))\<rparr>)
        0 demo_data
      = Inr (Fin (8 / 17), Fin 1)"
proof -
  have s25: "sqrt 25 = 5" using real_sqrt_abs [of 5] by simp
  have s4: "sqrt 4 = 2" using real_sqrt_abs [of 2] by simp
  have up: "[0 ..< 2] = [0, 1]" by (simp add: upt_rec)
  have g: "getitem demo_data ''stsb'' = Inr [(''train'', [3]), (''validation'', [4])]"
    "getitem [(''train'', [3::real]), (''validation'', [4])] ''validation'' = Inr [4]"
    "[4::real] \<noteq> []"
    by (simp_all add: getitem_def demo_data_def)
  have one: "similarities [[4, 1]] [[1, 4]] = [Fin (8 / 17)]"
    using similarities_rowwise [of "[[4, 1]]" "[[1, 4]]"]
    by (simp add: cosine_def dot_def fdiv_def)
  show ?thesis
    using cosine_sim_entries [of "[[3, 4], [1, 0]]" "[[4, 3], [0, 2]]" demo_data
        "[(''train'', [3]), (''validation'', [4])]" "[4]"
        "demo_env\<lparr>pearsonr := (\<lambda>sims labels. Inr (sims ! 0)),
                  spearmanr := (\<lambda>sims labels. Inr (Fin (real (length sims))))\<rparr>" 0] g one
    by (simp add: dot_def fdiv_def s25 s4 up demo_env_def)
qed

section \<open>One training batch\<close>

text \<open>
  C8. Every training batch runs clear-gradients, forward, scale, backward, the optimizer step
  through the scaler, the scaler update and the schedule step, in this order, followed only by
  the gated train-loss entry; the schedule advances by exactly one whether or not the scaler
  skipped the optimizer step.
\<close>

theorem train_batch_protocol:
  "trace (train_batch env writer rank dataset_name batch s) =
     trace s
       @ [Zero_grad, Forward, Scale_loss, Backward,
          Scaler_step (\<not> grads_overflow env (embedder s) batch), Scaler_update, Scheduler_step]
       @ (if writer \<and> rank = 0
          then [Add_scalar dataset_name ''train_loss''
                  (loss_of env (embedder s) batch) (global_step s + 1)]
          else [])
   \<and> scheduler_steps (train_batch env writer rank dataset_name batch s) = scheduler_steps s + 1"
  by (simp add: train_batch_def Let_def log_metrics_def)

theorem train_batch_protocol_witness:
  "trace (train_batch (demo_env\<lparr>grads_overflow := (\<lambda>m b. True)\<rparr>) False 1 ''nli'' 7 (init_state 0))
     = [Zero_grad, Forward, Scale_loss, Backward, Scaler_step False, Scaler_update, Scheduler_step]
   \<and> scheduler_steps
        (train_batch (demo_env\<lparr>grads_overflow := (\<lambda>m b. True)\<rparr>) False 1 ''nli'' 7 (init_state 0)) = 1"
  using train_batch_protocol
    [of "demo_env\<lparr>grads_overflow := (\<lambda>m b. True)\<rparr>" False 1 "''nli''" 7 "init_state 0"]
  by (simp add: init_state_def demo_env_def)

section \<open>Invariants of the training loop\<close>

subsection \<open>Which events the loop can emit\<close>

lemma for_each_final:
  assumes "\<And>x s. P s \<Longrightarrow> P (final (body x s))" and "P s"
  shows "P (final (for_each body xs s))"
  using assms(2)
proof (induction xs arbitrary: s)
  case Nil
  then show ?case by simp
next
  case (Cons x xs)
  show ?case
  proof (cases "body x s")
    case (Done s')
    then have "P s'" using assms(1) [OF Cons.prems, of x] by simp
    then show ?thesis using Done Cons.IH by simp
  next
    case (Raised e s')
    then have "P s'" using assms(1) [OF Cons.prems, of x] by simp
    then show ?thesis using Raised by simp
  qed
qed

lemma quiet_train_batch:
  "list_all (quiet rank) (trace s) \<Longrightarrow>
   list_all (quiet rank) (trace (train_batch env writer rank dn b s))"
  by (simp add: train_batch_def Let_def log_metrics_def quiet_def)

lemma quiet_fold_train_batch:
  "list_all (quiet rank) (trace s) \<Longrightarrow>
   list_all (quiet rank) (trace (fold (train_batch env writer rank dn) bs s))"
  by (induction bs arbitrary: s) (simp_all add: quiet_train_batch)

lemma quiet_after_training:
  "list_all (quiet rank) (trace s) \<Longrightarrow>
   list_all (quiet rank) (trace (after_training env writer is_ddp rank epoch dn bs s))"
  unfolding after_training_def
  by (rule quiet_fold_train_batch) (simp add: emit_def quiet_def)

lemma quiet_validation_phase:
  "list_all (quiet rank) (trace s) \<Longrightarrow>
   list_all (quiet rank) (trace (validation_phase env writer rank dn avg vl s))"
  by (auto simp: validation_phase_def Let_def emit_def log_metrics_def quiet_def list_all_iff
      split: option.splits)

lemma quiet_checkpoint_check:
  "rank = 0 \<Longrightarrow> list_all (quiet rank) (trace s) \<Longrightarrow>
   list_all (quiet rank) (trace (final (checkpoint_check env name score s)))"
  by (simp add: checkpoint_check_def save_best_model_def emit_def quiet_def
      split: option.splits)

lemma quiet_evaluation_phase:
  "list_all (quiet rank) (trace s) \<Longrightarrow>
   list_all (quiet rank) (trace (final (evaluation_phase env data name writer rank dn s)))"
  by (auto simp: evaluation_phase_def emit_def log_metrics_def quiet_def
      checkpoint_check_def save_best_model_def split: sum.splits prod.splits option.splits)

lemma quiet_dataset_epoch:
  "list_all (quiet rank) (trace s) \<Longrightarrow>
   list_all (quiet rank)
     (trace (final (dataset_epoch env data name writer is_ddp ws rank epoch dn s)))"
  by (simp add: dataset_epoch_def Let_def quiet_after_training quiet_validation_phase
      quiet_evaluation_phase split: sum.splits)

lemma quiet_epoch_body:
  assumes "list_all (quiet rank) (trace s)"
  shows "list_all (quiet rank)
     (trace (final (epoch_body env experiment name writer is_ddp ws rank epoch s)))"
proof -
  let ?s1 = "if rank = 0 then emit [Print_epoch (int epoch + 1) (num_epochs experiment)] s else s"
  let ?r = "for_each (dataset_epoch env (data_loaders experiment) name writer is_ddp ws rank (int epoch))
              (train_datasets experiment) ?s1"
  have "list_all (quiet rank) (trace ?s1)"
    using assms by (auto simp: emit_def quiet_def)
  then have "list_all (quiet rank) (trace (final ?r))"
    by (rule for_each_final [where P = "\<lambda>s. list_all (quiet rank) (trace s)", rotated])
       (rule quiet_dataset_epoch)
  then show ?thesis
    by (cases ?r) (auto simp: epoch_body_def emit_def quiet_def)
qed

lemma quiet_train_loop:
  "list_all (quiet rank)
     (trace (final (train_loop env m experiment name writer is_ddp ws rank)))"
proof -
  have init: "list_all (quiet rank) (trace (init_state m))"
    by (simp add: init_state_def)
  have "list_all (quiet rank)
     (trace (final (for_each (epoch_body env experiment name writer is_ddp ws rank) es (init_state m))))"
    for es
    by (rule for_each_final [where P = "\<lambda>s. list_all (quiet rank) (trace s)", rotated])
       (rule init, rule quiet_epoch_body)
  then show ?thesis
    using init by (simp add: train_loop_def split: sum.splits)
qed

subsection \<open>The step counter of a completed run\<close>

lemma global_step_train_batch:
  "global_step (train_batch env writer rank dn b s) = global_step s + 1"
  by (simp add: train_batch_def Let_def)

lemma global_step_fold_train_batch:
  "global_step (fold (train_batch env writer rank dn) bs s) = global_step s + int (length bs)"
  by (induction bs arbitrary: s) (simp_all add: global_step_train_batch)

lemma global_step_after_training:
  "global_step (after_training env writer is_ddp rank epoch dn bs s)
     = global_step s + int (length bs)"
  by (simp add: after_training_def global_step_fold_train_batch emit_def)

lemma global_step_validation_phase:
  "global_step (validation_phase env writer rank dn avg vl s) = global_step s"
  by (simp add: validation_phase_def Let_def emit_def split: option.splits)

lemma global_step_evaluation_phase:
  "global_step (final (evaluation_phase env data name writer rank dn s)) = global_step s"
  by (simp add: evaluation_phase_def emit_def checkpoint_check_def save_best_model_def
      split: sum.splits prod.splits option.splits)

lemma dataset_epoch_Done:
  assumes "dataset_epoch env data name writer is_ddp ws rank epoch dn s = Done s'"
  shows "\<exists>bs. train_split data dn = Some bs \<and> bs \<noteq> []
            \<and> global_step s' = global_step s + int (length bs)"
proof -
  obtain splits where sp: "map_of data dn = Some splits"
    using assms by (auto simp: dataset_epoch_def getitem_def split: option.splits)
  obtain bs where bs: "map_of splits ''train'' = Some bs"
    using assms sp by (auto simp: dataset_epoch_def getitem_def split: option.splits)
  have ne: "bs \<noteq> []"
    using assms sp bs by (auto simp: dataset_epoch_def getitem_def Let_def split: if_splits)
  let ?s2 = "after_training env writer is_ddp rank epoch dn bs s"
  let ?s3 = "validation_phase env writer rank dn
               (avg_train_loss (total_train_loss ?s2) (length bs))
               (find_val_loader env is_ddp ws rank splits) ?s2"
  have "evaluation_phase env data name writer rank dn ?s3 = Done s'"
    using assms sp bs ne by (simp add: dataset_epoch_def getitem_def Let_def)
  then have "global_step s' = global_step ?s3"
    using global_step_evaluation_phase [of env data name writer rank dn ?s3] by simp
  then have "global_step s' = global_step s + int (length bs)"
    by (simp add: global_step_validation_phase global_step_after_training)
  then show ?thesis using sp bs ne by (auto simp: train_split_def)
qed

lemma train_len_Some: "train_split data dn = Some bs \<Longrightarrow> train_len data dn = int (length bs)"
  by (simp add: train_len_def)

lemma for_each_dataset_epoch_Done:
  "for_each (dataset_epoch env data name writer is_ddp ws rank epoch) names s = Done s' \<Longrightarrow>
   list_all (\<lambda>dn. \<exists>bs. train_split data dn = Some bs \<and> bs \<noteq> []) names
   \<and> global_step s' = global_step s + sum_list (map (train_len data) names)"
proof (induction names arbitrary: s)
  case Nil
  then show ?case by simp
next
  case (Cons dn names)
  from Cons.prems obtain s1 where
    s1: "dataset_epoch env data name writer is_ddp ws rank epoch dn s = Done s1"
    and rest: "for_each (dataset_epoch env data name writer is_ddp ws rank epoch) names s1 = Done s'"
    by (auto split: outcome.splits)
  from dataset_epoch_Done [OF s1] obtain bs where
    bs: "train_split data dn = Some bs" "bs \<noteq> []" "global_step s1 = global_step s + int (length bs)"
    by blast
  from Cons.IH [OF rest] bs show ?case by (auto simp: train_len_Some)
qed

lemma epoch_body_Done:
  assumes "epoch_body env experiment name writer is_ddp ws rank epoch s = Done s'"
  shows "list_all (\<lambda>dn. \<exists>bs. train_split (data_loaders experiment) dn = Some bs \<and> bs \<noteq> [])
           (train_datasets experiment)
         \<and> global_step s' = global_step s
             + sum_list (map (train_len (data_loaders experiment)) (train_datasets experiment))"
proof -
  let ?s1 = "if rank = 0 then emit [Print_epoch (int epoch + 1) (num_epochs experiment)] s else s"
  obtain s2 where
    s2: "for_each (dataset_epoch env (data_loaders experiment) name writer is_ddp ws rank (int epoch))
           (train_datasets experiment) ?s1 = Done s2"
    and s': "s' = (if rank = 0 then emit [Print_blank] s2 else s2)"
    using assms by (auto simp: epoch_body_def split: outcome.splits)
  have "global_step ?s1 = global_step s" by (simp add: emit_def)
  moreover have "global_step s' = global_step s2" using s' by (simp add: emit_def)
  ultimately show ?thesis using for_each_dataset_epoch_Done [OF s2] by simp
qed

lemma for_each_epoch_body_Done:
  "for_each (epoch_body env experiment name writer is_ddp ws rank) es s = Done s' \<Longrightarrow>
   (es \<noteq> [] \<longrightarrow> list_all (\<lambda>dn. \<exists>bs. train_split (data_loaders experiment) dn = Some bs \<and> bs \<noteq> [])
           (train_datasets experiment))
   \<and> global_step s' = global_step s
       + int (length es)
         * sum_list (map (train_len (data_loaders experiment)) (train_datasets experiment))"
proof (induction es arbitrary: s)
  case Nil
  then show ?case by simp
next
  case (Cons epoch es)
  from Cons.prems obtain s1 where
    s1: "epoch_body env experiment name writer is_ddp ws rank epoch s = Done s1"
    and rest: "for_each (epoch_body env experiment name writer is_ddp ws rank) es s1 = Done s'"
    by (auto split: outcome.splits)
  from epoch_body_Done [OF s1] Cons.IH [OF rest] show ?case
    by (simp add: algebra_simps)
qed

lemma total_steps_per_epoch_sum:
  "total_steps_per_epoch data names = Inr n \<Longrightarrow> n = sum_list (map (train_len data) names)"
proof (induction names arbitrary: n)
  case Nil
  then show ?case by simp
next
  case (Cons dn names)
  then show ?case
    by (auto simp: getitem_def train_len_def train_split_def split: option.splits sum.splits)
qed

lemma total_steps_per_epoch_present:
  "list_all (\<lambda>dn. map_of data dn \<noteq> None) names \<Longrightarrow>
   total_steps_per_epoch data names = Inr (sum_list (map (train_len data) names))"
  by (induction names)
     (auto simp: getitem_def train_len_def train_split_def split: option.splits sum.splits)

lemma train_loop_Done:
  assumes "train_loop env m experiment name writer is_ddp ws rank = Done s'"
  shows "total_steps experiment
           = Inr (sum_list (map (train_len (data_loaders experiment)) (train_datasets experiment))
                    * num_epochs experiment)"
    and "global_step s'
           = int (nat (num_epochs experiment))
             * sum_list (map (train_len (data_loaders experiment)) (train_datasets experiment))"
    and "1 \<le> num_epochs experiment \<Longrightarrow>
           list_all (\<lambda>dn. \<exists>bs. train_split (data_loaders experiment) dn = Some bs \<and> bs \<noteq> [])
             (train_datasets experiment)"
proof -
  obtain n where n: "total_steps_per_epoch (data_loaders experiment) (train_datasets experiment) = Inr n"
    using assms by (auto simp: train_loop_def total_steps_def split: sum.splits)
  show "total_steps experiment
           = Inr (sum_list (map (train_len (data_loaders experiment)) (train_datasets experiment))
                    * num_epochs experiment)"
    using n total_steps_per_epoch_sum [OF n] by (simp add: total_steps_def)
  have run: "for_each (epoch_body env experiment name writer is_ddp ws rank)
               [0 ..< nat (num_epochs experiment)] (init_state m) = Done s'"
    using assms by (auto simp: train_loop_def split: sum.splits)
  from for_each_epoch_body_Done [OF run]
  show "global_step s'
           = int (nat (num_epochs experiment))
             * sum_list (map (train_len (data_loaders experiment)) (train_datasets experiment))"
    by (simp add: init_state_def)
  show "list_all (\<lambda>dn. \<exists>bs. train_split (data_loaders experiment) dn = Some bs \<and> bs \<noteq> [])
             (train_datasets experiment)" if "1 \<le> num_epochs experiment"
    using for_each_epoch_body_Done [OF run] that by simp
qed

lemma sum_train_len_filter:
  "sum_list (map (train_len data) (filter (\<lambda>dn. train_split data dn \<noteq> None) names))
     = sum_list (map (train_len data) names)"
  by (induction names) (simp_all add: train_len_def)

lemmas run_defs = train_loop_def total_steps_def getitem_def
     setup_scheduler_def epoch_body_def dataset_epoch_def after_training_def
     train_batch_def emit_def init_state_def find_val_loader_def validation_phase_def
     evaluation_phase_def evaluate_def Let_def log_metrics_def checkpoint_check_def
     save_best_model_def avg_train_loss_def avg_val_loss_def train_worker_def initialize_writer_def
     train_def fsum_def

lemma quiet_not_gated: "rank \<noteq> 0 \<Longrightarrow> list_all (quiet rank) evs \<Longrightarrow> list_all (\<lambda>e. \<not> gated e) evs"
  by (induction evs) (auto simp: quiet_def)

lemma quiet_no_destroy: "list_all (quiet rank) evs \<Longrightarrow> Destroy_process_group \<notin> set evs"
  by (induction evs) (auto simp: quiet_def)

lemma train_worker_unfold:
  "train_worker env rank world_size m experiment name =
     (case replace_train_loaders env world_size rank (data_loaders experiment)
             (train_datasets experiment) of
        Inl e \<Rightarrow>
          Raised e (emit ([Init_process_group rank world_size, Set_device rank]
                           @ (if rank = 0 then [Writer_open name, Makedirs] else []))
                      (init_state m))
      | Inr data \<Rightarrow>
          (case train_loop env m (experiment\<lparr>data_loaders := data\<rparr>) name (rank = 0) True
                  world_size rank of
             Raised e s \<Rightarrow>
               Raised e (s\<lparr>trace := [Init_process_group rank world_size, Set_device rank]
                                      @ (if rank = 0 then [Writer_open name, Makedirs] else [])
                                      @ trace s\<rparr>)
           | Done s \<Rightarrow>
               Done (s\<lparr>trace := [Init_process_group rank world_size, Set_device rank]
                                  @ (if rank = 0 then [Writer_open name, Makedirs] else [])
                                  @ trace s
                                  @ (if rank = 0 then [Writer_close] else [])
                                  @ [Destroy_process_group]\<rparr>)))"
  by (simp add: train_worker_def initialize_writer_def Let_def split: sum.splits outcome.splits)

section \<open>Rank gating\<close>

text \<open>
  C7. A process whose rank is not 0 performs none of the gated side effects (no print, no
  metric entry, no evaluation, no checkpoint or directory write, no writer), neither in the
  training loop (whatever writer it is given) nor in the distributed worker as a whole, and it
  gets no writer; these effects are left to rank 0, which is also the rank of the
  single-process entry point.
\<close>

theorem rank_gating:
  assumes "rank \<noteq> 0"
  shows "list_all (\<lambda>e. \<not> gated e)
           (trace (final (train_loop env m experiment name writer is_ddp world_size rank)))
       \<and> list_all (\<lambda>e. \<not> gated e)
           (trace (final (train_worker env rank world_size m experiment name)))
       \<and> initialize_writer name (rank = 0) = (False, [])"
proof -
  have loop: "list_all (\<lambda>e. \<not> gated e)
           (trace (final (train_loop env m' experiment' name writer' is_ddp' world_size rank)))"
    for m' experiment' writer' is_ddp'
    using quiet_not_gated [OF assms quiet_train_loop] .
  have "list_all (\<lambda>e. \<not> gated e)
           (trace (final (train_worker env rank world_size m experiment name)))"
  proof (cases "replace_train_loaders env world_size rank (data_loaders experiment)
                      (train_datasets experiment)")
    case (Inl e)
    then show ?thesis
      using assms by (simp add: train_worker_unfold emit_def init_state_def)
  next
    case (Inr data)
    show ?thesis
    proof (cases "train_loop env m (experiment\<lparr>data_loaders := data\<rparr>) name (rank = 0) True
                      world_size rank")
      case (Done s)
      then show ?thesis
        using Inr assms loop [of m "experiment\<lparr>data_loaders := data\<rparr>" "rank = 0" True]
        by (simp add: train_worker_unfold)
    next
      case (Raised e s)
      then show ?thesis
        using Inr assms loop [of m "experiment\<lparr>data_loaders := data\<rparr>" "rank = 0" True]
        by (simp add: train_worker_unfold)
    qed
  qed
  then show ?thesis using assms loop by (simp add: initialize_writer_def)
qed

theorem rank_gating_witness:
  "trace (final (train_worker demo_env 1 2 0 demo_experiment ''run''))
     = [Init_process_group 1 2, Set_device 1, Set_epoch ''nli'' 0,
        Zero_grad, Forward, Scale_loss, Backward, Scaler_step True, Scaler_update, Scheduler_step,
        Zero_grad, Forward, Scale_loss, Backward, Scaler_step True, Scaler_update, Scheduler_step,
        Destroy_process_group]
   \<and> list_all (\<lambda>e. \<not> gated e) (trace (final (train_worker demo_env 1 2 0 demo_experiment ''run'')))
   \<and> list_all (\<lambda>e. \<not> gated e)
        (trace (final (train_loop demo_env 0 demo_experiment ''run'' True True 2 1)))"
proof -
  have "(1::int) \<noteq> 0" by simp
  from rank_gating [OF this, of demo_env 0 demo_experiment "''run''" True True 2]
  show ?thesis
    by (simp add: run_defs demo_experiment_def demo_data_def demo_env_def)
qed

section \<open>Teardown of the process group\<close>

text \<open>
  C3, as the code has it. The worker destroys the process group exactly once, as its last
  action, when the loader replacement and the training loop both return; when either raises,
  the exception leaves the worker and the group is never destroyed. The worker returns
  normally exactly when both return.
\<close>

theorem train_worker_teardown:
  "(case train_worker env rank world_size m experiment name of
      Done s \<Rightarrow> (\<exists>tr. trace s = tr @ [Destroy_process_group] \<and> Destroy_process_group \<notin> set tr)
    | Raised e s \<Rightarrow> Destroy_process_group \<notin> set (trace s))
   \<and> ((\<exists>s. train_worker env rank world_size m experiment name = Done s)
        = (\<exists>data s. replace_train_loaders env world_size rank (data_loaders experiment)
                      (train_datasets experiment) = Inr data
                  \<and> train_loop env m (experiment\<lparr>data_loaders := data\<rparr>) name (rank = 0) True
                      world_size rank = Done s))"
proof -
  have nd: "Destroy_process_group \<notin>
      set (trace (final (train_loop env m experiment' name writer True world_size rank)))"
    for experiment' writer
    using quiet_no_destroy [OF quiet_train_loop] .
  show ?thesis
  proof (cases "replace_train_loaders env world_size rank (data_loaders experiment)
                      (train_datasets experiment)")
    case (Inl e)
    then show ?thesis
      by (simp add: train_worker_unfold emit_def init_state_def)
  next
    case (Inr data)
    show ?thesis
    proof (cases "train_loop env m (experiment\<lparr>data_loaders := data\<rparr>) name (rank = 0) True
                      world_size rank")
      case (Done s)
      then show ?thesis
        using Inr nd [of "experiment\<lparr>data_loaders := data\<rparr>" "rank = 0"]
        by (simp add: train_worker_unfold)
    next
      case (Raised e s)
      then show ?thesis
        using Inr nd [of "experiment\<lparr>data_loaders := data\<rparr>" "rank = 0"]
        by (simp add: train_worker_unfold)
    qed
  qed
qed

theorem train_worker_teardown_witness:
  "last (trace (final (train_worker demo_env 0 1 0 demo_experiment ''run''))) = Destroy_process_group
   \<and> (\<exists>s. train_worker demo_env 0 1 0 demo_experiment ''run'' = Done s)"
  using train_worker_teardown [of demo_env 0 1 0 demo_experiment "''run''"]
  by (simp add: run_defs demo_experiment_def demo_data_def demo_env_def)

text \<open>
  C3 as stated fails: on a one-process group whose data has no \<^verbatim>\<open>stsb\<close> entry the evaluation
  raises a lookup error inside the training loop, and the worker ends without destroying the
  group.
\<close>

theorem train_worker_leak:
  "train_worker demo_env 0 1 0 demo_no_benchmark ''run'' =
     Raised (KeyError ''stsb'')
       \<lparr>embedder = 2, global_step = 2, best_stsb_score = NegInf, scheduler_steps = 2,
        total_train_loss = Fin 3,
        trace = [Init_process_group 0 1, Set_device 0, Writer_open ''run'', Makedirs,
                 Print_epoch 1 1, Set_epoch ''nli'' 0,
                 Zero_grad, Forward, Scale_loss, Backward, Scaler_step True, Scaler_update,
                 Scheduler_step, Add_scalar ''nli'' ''train_loss'' (Fin 1) 1,
                 Zero_grad, Forward, Scale_loss, Backward, Scaler_step True, Scaler_update,
                 Scheduler_step, Add_scalar ''nli'' ''train_loss'' (Fin 2) 2,
                 Print_train_noval ''nli'' (Fin (3 / 2)), Evaluate]\<rparr>
   \<and> Destroy_process_group \<notin>
       set (trace (final (train_worker demo_env 0 1 0 demo_no_benchmark ''run'')))"
  by (simp add: run_defs demo_no_benchmark_def demo_env_def)

section \<open>The global step counter\<close>

lemma counted_train_batch:
  "global_step s = int (batches_processed s) \<Longrightarrow>
   global_step (train_batch env writer rank dn b s)
     = int (batches_processed (train_batch env writer rank dn b s))"
  by (simp add: train_batch_def Let_def batches_processed_def log_metrics_def)

lemma counted_fold_train_batch:
  "global_step s = int (batches_processed s) \<Longrightarrow>
   global_step (fold (train_batch env writer rank dn) bs s)
     = int (batches_processed (fold (train_batch env writer rank dn) bs s))"
  by (induction bs arbitrary: s) (simp_all add: counted_train_batch)

lemma counted_after_training:
  "global_step s = int (batches_processed s) \<Longrightarrow>
   global_step (after_training env writer is_ddp rank epoch dn bs s)
     = int (batches_processed (after_training env writer is_ddp rank epoch dn bs s))"
  unfolding after_training_def
  by (rule counted_fold_train_batch) (simp add: emit_def batches_processed_def)

lemma counted_validation_phase:
  "global_step s = int (batches_processed s) \<Longrightarrow>
   global_step (validation_phase env writer rank dn avg vl s)
     = int (batches_processed (validation_phase env writer rank dn avg vl s))"
  by (simp add: validation_phase_def Let_def emit_def log_metrics_def batches_processed_def
      split: option.splits)

lemma counted_evaluation_phase:
  "global_step s = int (batches_processed s) \<Longrightarrow>
   global_step (final (evaluation_phase env data name writer rank dn s))
     = int (batches_processed (final (evaluation_phase env data name writer rank dn s)))"
  by (simp add: evaluation_phase_def emit_def log_metrics_def batches_processed_def
      checkpoint_check_def save_best_model_def split: sum.splits prod.splits option.splits)

lemma counted_dataset_epoch:
  "global_step s = int (batches_processed s) \<Longrightarrow>
   global_step (final (dataset_epoch env data name writer is_ddp ws rank epoch dn s))
     = int (batches_processed (final (dataset_epoch env data name writer is_ddp ws rank epoch dn s)))"
  by (simp add: dataset_epoch_def Let_def counted_after_training counted_validation_phase
      counted_evaluation_phase split: sum.splits)

lemma counted_epoch_body:
  assumes "global_step s = int (batches_processed s)"
  shows "global_step (final (epoch_body env experiment name writer is_ddp ws rank epoch s))
     = int (batches_processed (final (epoch_body env experiment name writer is_ddp ws rank epoch s)))"
proof -
  let ?s1 = "if rank = 0 then emit [Print_epoch (int epoch + 1) (num_epochs experiment)] s else s"
  let ?r = "for_each (dataset_epoch env (data_loaders experiment) name writer is_ddp ws rank (int epoch))
              (train_datasets experiment) ?s1"
  have "global_step ?s1 = int (batches_processed ?s1)"
    using assms by (simp add: emit_def batches_processed_def)
  then have "global_step (final ?r) = int (batches_processed (final ?r))"
    by (rule for_each_final [where P = "\<lambda>s. global_step s = int (batches_processed s)", rotated])
       (rule counted_dataset_epoch)
  then show ?thesis
    by (cases ?r) (simp_all add: epoch_body_def emit_def batches_processed_def)
qed

lemma counted_train_loop:
  "global_step (final (train_loop env m experiment name writer is_ddp ws rank))
     = int (batches_processed (final (train_loop env m experiment name writer is_ddp ws rank)))"
proof -
  have init: "global_step (init_state m) = int (batches_processed (init_state m))"
    by (simp add: init_state_def batches_processed_def)
  have "global_step (final (for_each (epoch_body env experiment name writer is_ddp ws rank) es (init_state m)))
      = int (batches_processed (final (for_each (epoch_body env experiment name writer is_ddp ws rank) es (init_state m))))"
    for es
    by (rule for_each_final [where P = "\<lambda>s. global_step s = int (batches_processed s)", rotated])
       (rule init, rule counted_epoch_body)
  then show ?thesis
    using init by (simp add: train_loop_def split: sum.splits)
qed

text \<open>
  C4. The step counter starts at 0 and every training batch adds exactly one to it, so that
  at every end of the training loop, normal or not, it equals the number of batches
  processed. When the loop returns (for an epoch count that is not negative), the counter
  equals the epoch count times the sum, over the training datasets that have a train split,
  of the length of the train loader, which is the total handed to the schedule builder.
\<close>

theorem global_step_count:
  "global_step (init_state m) = 0
   \<and> global_step (train_batch env writer rank dataset_name batch s) = global_step s + 1
   \<and> global_step (final (train_loop env m experiment name writer is_ddp world_size rank))
       = int (batches_processed (final (train_loop env m experiment name writer is_ddp world_size rank)))
   \<and> (train_loop env m experiment name writer is_ddp world_size rank = Done s' \<longrightarrow>
      0 \<le> num_epochs experiment \<longrightarrow>
        global_step s'
          = num_epochs experiment
            * sum_list (map (train_len (data_loaders experiment))
                (filter (\<lambda>dn. train_split (data_loaders experiment) dn \<noteq> None)
                   (train_datasets experiment)))
        \<and> total_steps experiment = Inr (global_step s'))"
proof -
  have "global_step s'
          = num_epochs experiment
            * sum_list (map (train_len (data_loaders experiment))
                (filter (\<lambda>dn. train_split (data_loaders experiment) dn \<noteq> None)
                   (train_datasets experiment)))
        \<and> total_steps experiment = Inr (global_step s')"
    if run: "train_loop env m experiment name writer is_ddp world_size rank = Done s'"
      and pos: "0 \<le> num_epochs experiment"
    unfolding sum_train_len_filter
    using train_loop_Done(1,2) [OF run] pos
    by (simp add: mult.commute)
  then show ?thesis
    using counted_train_loop [of env m "experiment" name writer is_ddp world_size rank]
    by (simp add: init_state_def global_step_train_batch)
qed

theorem global_step_count_witness:
  "train_loop demo_env 0 (demo_experiment\<lparr>num_epochs := 2\<rparr>) ''run'' False False 1 0
     = Done \<lparr>embedder = 4, global_step = 4, best_stsb_score = NegInf, scheduler_steps = 4,
             total_train_loss = Fin 3,
             trace = [Print_epoch 1 2,
               Zero_grad, Forward, Scale_loss, Backward, Scaler_step True, Scaler_update, Scheduler_step,
               Zero_grad, Forward, Scale_loss, Backward, Scaler_step True, Scaler_update, Scheduler_step,
               Print_blank, Print_epoch 2 2,
               Zero_grad, Forward, Scale_loss, Backward, Scaler_step True, Scaler_update, Scheduler_step,
               Zero_grad, Forward, Scale_loss, Backward, Scaler_step True, Scaler_update, Scheduler_step,
               Print_blank]\<rparr>
   \<and> total_steps (demo_experiment\<lparr>num_epochs := 2\<rparr>) = Inr 4
   \<and> train_len demo_data ''nli'' = 2"
proof -
  have up: "[0 ..< 2] = [0, 1]" by (simp add: upt_rec)
  have run: "train_loop demo_env 0 (demo_experiment\<lparr>num_epochs := 2\<rparr>) ''run'' False False 1 0
     = Done \<lparr>embedder = 4, global_step = 4, best_stsb_score = NegInf, scheduler_steps = 4,
             total_train_loss = Fin 3,
             trace = [Print_epoch 1 2,
               Zero_grad, Forward, Scale_loss, Backward, Scaler_step True, Scaler_update, Scheduler_step,
               Zero_grad, Forward, Scale_loss, Backward, Scaler_step True, Scaler_update, Scheduler_step,
               Print_blank, Print_epoch 2 2,
               Zero_grad, Forward, Scale_loss, Backward, Scaler_step True, Scaler_update, Scheduler_step,
               Zero_grad, Forward, Scale_loss, Backward, Scaler_step True, Scaler_update, Scheduler_step,
               Print_blank]\<rparr>"
    by (simp add: run_defs demo_experiment_def demo_data_def demo_env_def up)
  show ?thesis
    using global_step_count [of "0::nat" demo_env False 0 "''nli''" 1 "init_state 0"
        "demo_experiment\<lparr>num_epochs := 2\<rparr>" "''run''" False 1] run
    by (simp add: demo_experiment_def demo_data_def train_split_def train_len_def)
qed

section \<open>What the training loop requires of the data\<close>

text \<open>
  C9. The body of the dataset loop reads the "train" split without a test: a training
  dataset without it raises a lookup error, although the step budget counted it as 0; a train
  loader with no batch raises the division error when the average is taken; so a training
  loop that returns (with at least one epoch) had a train split with at least one batch for
  every training dataset.
\<close>

theorem train_split_required:
  "(getitem data dataset_name = Inr splits \<longrightarrow> map_of splits ''train'' = None \<longrightarrow>
      dataset_epoch env data name writer is_ddp world_size rank epoch dataset_name s
        = Raised (KeyError ''train'') s
      \<and> total_steps_per_epoch data [dataset_name] = Inr 0)
   \<and> (train_split data dataset_name = Some [] \<longrightarrow>
      dataset_epoch env data name writer is_ddp world_size rank epoch dataset_name s
        = Raised ZeroDivisionError (after_training env writer is_ddp rank epoch dataset_name [] s))
   \<and> (train_loop env m experiment name writer is_ddp world_size rank = Done s' \<longrightarrow>
      1 \<le> num_epochs experiment \<longrightarrow>
        list_all (\<lambda>dn. \<exists>bs. train_split (data_loaders experiment) dn = Some bs \<and> bs \<noteq> [])
          (train_datasets experiment))"
proof -
  have a: "dataset_epoch env data name writer is_ddp world_size rank epoch dataset_name s
        = Raised (KeyError ''train'') s
      \<and> total_steps_per_epoch data [dataset_name] = Inr 0"
    if "getitem data dataset_name = Inr splits" "map_of splits ''train'' = None"
    using that by (simp add: dataset_epoch_def getitem_def)
  have b: "dataset_epoch env data name writer is_ddp world_size rank epoch dataset_name s
        = Raised ZeroDivisionError (after_training env writer is_ddp rank epoch dataset_name [] s)"
    if "train_split data dataset_name = Some []"
    using that
    by (auto simp: dataset_epoch_def getitem_def train_split_def Let_def split: option.splits)
  have c: "list_all (\<lambda>dn. \<exists>bs. train_split (data_loaders experiment) dn = Some bs \<and> bs \<noteq> [])
          (train_datasets experiment)"
    if "train_loop env m experiment name writer is_ddp world_size rank = Done s'"
      "1 \<le> num_epochs experiment"
    using train_loop_Done(3) [OF that] .
  show ?thesis
    using a b c by auto
qed

theorem train_split_required_witness:
  "dataset_epoch demo_env [(''nli'', [(''validation'', [1])])] ''run'' True False 1 0 0 ''nli''
       (init_state 0)
     = Raised (KeyError ''train'') (init_state 0)
   \<and> total_steps_per_epoch [(''nli'', [(''validation'', [1::real])])] [''nli''] = Inr 0
   \<and> dataset_epoch demo_env [(''nli'', [(''train'', [])])] ''run'' True False 1 0 0 ''nli''
       (init_state 0)
     = Raised ZeroDivisionError (init_state 0)
   \<and> (\<exists>s. train_loop demo_env 0 demo_experiment ''run'' True False 1 0 = Done s)
   \<and> list_all (\<lambda>dn. \<exists>bs. train_split demo_data dn = Some bs \<and> bs \<noteq> []) [''nli'']"
proof -
  have run: "\<exists>s. train_loop demo_env 0 demo_experiment ''run'' True False 1 0 = Done s"
    by (simp add: run_defs demo_experiment_def demo_data_def demo_env_def)
  then obtain s where s: "train_loop demo_env 0 demo_experiment ''run'' True False 1 0 = Done s" ..
  have ep: "(1::int) \<le> num_epochs demo_experiment" by (simp add: demo_experiment_def)
  have d: "data_loaders demo_experiment = demo_data" "train_datasets demo_experiment = [''nli'']"
    by (simp_all add: demo_experiment_def)
  have g: "getitem [(''nli'', [(''validation'', [1::real])])] ''nli'' = Inr [(''validation'', [1])]"
    "map_of [(''validation'', [1::real])] ''train'' = None"
    by (simp_all add: getitem_def)
  have t: "train_split [(''nli'', [(''train'', ([]::real list))])] ''nli'' = Some []"
    by (simp add: train_split_def)
  have e: "after_training demo_env True False 0 0 ''nli'' [] (init_state 0) = init_state 0"
    by (simp add: after_training_def init_state_def)
  from train_split_required [of "[(''nli'', [(''validation'', [1])])]" "''nli''"
      "[(''validation'', [1])]" demo_env "''run''" True False 1 0 0 "init_state 0"
      0 demo_experiment s]
    train_split_required [of "[(''nli'', [(''train'', [])])]" "''nli''"
      "[]" demo_env "''run''" True False 1 0 0 "init_state 0"
      0 demo_experiment s]
  show ?thesis using run s ep d g t e by simp
qed

section \<open>The checkpoint selector\<close>

lemma marks_append: "marks (xs @ ys) = marks xs @ marks ys"
  by (simp add: marks_def)

lemma scores_append: "scores (xs @ ys) = scores xs @ scores ys"
  by (simp add: scores_def)

lemma running_best_append:
  "running_best best (xs @ ys) = running_best (running_best best xs) ys"
  by (induction xs arbitrary: best) simp_all

lemma selector_append:
  "selector best (xs @ ys) = selector best xs @ selector (running_best best xs) ys"
  by (induction xs arbitrary: best) simp_all

lemma tracked_silent:
  assumes "tracked s" and "trace s' = trace s @ evs" and "marks evs = []" and "scores evs = []"
    and "best_stsb_score s' = best_stsb_score s"
  shows "tracked s'"
  using assms by (simp add: tracked_def marks_append scores_append)

lemma tracked_train_batch:
  "tracked s \<Longrightarrow> tracked (train_batch env writer rank dn b s)"
  by (rule tracked_silent [where evs = "[Zero_grad, Forward, Scale_loss, Backward,
            Scaler_step (\<not> grads_overflow env (embedder s) b), Scaler_update, Scheduler_step]
          @ (if writer \<and> rank = 0
             then [Add_scalar dn ''train_loss'' (loss_of env (embedder s) b) (global_step s + 1)]
             else [])"])
     (simp_all add: train_batch_def Let_def log_metrics_def marks_def scores_def)

lemma tracked_fold_train_batch:
  "tracked s \<Longrightarrow> tracked (fold (train_batch env writer rank dn) bs s)"
  by (induction bs arbitrary: s) (simp_all add: tracked_train_batch)

lemma tracked_after_training:
  "tracked s \<Longrightarrow> tracked (after_training env writer is_ddp rank epoch dn bs s)"
  unfolding after_training_def
  by (rule tracked_fold_train_batch)
     (simp add: tracked_def emit_def marks_def scores_def)

lemma marks_replicate_Val_forward: "marks (replicate n Val_forward) = []"
  by (induction n) (simp_all add: marks_def)

lemma scores_replicate_Val_forward: "scores (replicate n Val_forward) = []"
  by (induction n) (simp_all add: scores_def)

lemma tracked_validation_phase:
  "tracked s \<Longrightarrow> tracked (validation_phase env writer rank dn avg vl s)"
  by (auto simp: validation_phase_def Let_def emit_def log_metrics_def tracked_def
      marks_append scores_append marks_replicate_Val_forward scores_replicate_Val_forward
      split: option.splits)
     (simp_all add: marks_def scores_def)

lemma checkpoint_check_unfold:
  "checkpoint_check env name score s =
     (if fgt score (best_stsb_score s)
      then (case torch_save env (''weights/'' @ name @ ''.pt'') of
              None \<Rightarrow>
                Done (s\<lparr>best_stsb_score := score,
                        trace := trace s @ [Makedirs, Save_state name, Print_saved name]\<rparr>)
            | Some e \<Rightarrow>
                Raised e (s\<lparr>best_stsb_score := score,
                            trace := trace s @ [Makedirs, Save_state name]\<rparr>))
      else Done s)"
  by (simp add: checkpoint_check_def save_best_model_def emit_def split: option.splits)

lemma tracked_evaluation_phase:
  assumes "tracked s"
  shows "tracked (final (evaluation_phase env data name writer rank dn s))"
proof (cases "writer \<and> rank = 0")
  case False
  then show ?thesis using assms by (auto simp: evaluation_phase_def)
next
  case True
  show ?thesis
  proof (cases "evaluate env (embedder s) data")
    case (Inl e)
    then show ?thesis
      using True assms
      by (simp add: evaluation_phase_def emit_def tracked_def marks_append scores_append)
         (simp add: marks_def scores_def)
  next
    case (Inr r)
    obtain r0 r1 where r: "r = (r0, r1)" by (cases r)
    let ?c = "fhalf (fadd r0 r1)"
    let ?evs = "[Evaluate, Print_stsb dn r0 r1, Add_scalar dn ''pearsonr'' r0 (global_step s),
                 Add_scalar dn ''spearmanr'' r1 (global_step s)]"
    have old: "marks (trace s) = selector NegInf (scores (trace s))"
      "best_stsb_score s = running_best NegInf (scores (trace s))"
      using assms by (simp_all add: tracked_def)
    have ext: "marks (trace s @ evs) = marks (trace s) @ concat (map mark_of evs)"
      "scores (trace s @ evs) = scores (trace s) @ concat (map score_of evs)" for evs
      by (simp_all add: marks_def scores_def)
    show ?thesis
      using True Inr r old
      by (simp add: evaluation_phase_def checkpoint_check_unfold emit_def log_metrics_def
          tracked_def ext selector_append running_best_append
          split: option.splits)
  qed
qed

lemma tracked_dataset_epoch:
  "tracked s \<Longrightarrow>
   tracked (final (dataset_epoch env data name writer is_ddp ws rank epoch dn s))"
  by (simp add: dataset_epoch_def Let_def tracked_after_training tracked_validation_phase
      tracked_evaluation_phase split: sum.splits)

lemma tracked_epoch_body:
  assumes "tracked s"
  shows "tracked (final (epoch_body env experiment name writer is_ddp ws rank epoch s))"
proof -
  let ?s1 = "if rank = 0 then emit [Print_epoch (int epoch + 1) (num_epochs experiment)] s else s"
  let ?r = "for_each (dataset_epoch env (data_loaders experiment) name writer is_ddp ws rank (int epoch))
              (train_datasets experiment) ?s1"
  have "tracked ?s1"
    using assms by (simp add: emit_def tracked_def marks_append scores_append)
                   (simp add: marks_def scores_def)
  then have "tracked (final ?r)"
    by (rule for_each_final [where P = tracked, rotated]) (rule tracked_dataset_epoch)
  then show ?thesis
    by (cases ?r)
       (auto simp: epoch_body_def emit_def tracked_def marks_append scores_append,
        simp_all add: marks_def scores_def)
qed

lemma tracked_train_loop:
  "tracked (final (train_loop env m experiment name writer is_ddp ws rank))"
proof -
  have init: "tracked (init_state m)"
    by (simp add: init_state_def tracked_def marks_def scores_def)
  have "tracked (final (for_each (epoch_body env experiment name writer is_ddp ws rank) es (init_state m)))"
    for es
    by (rule for_each_final [where P = tracked, rotated]) (rule init, rule tracked_epoch_body)
  then show ?thesis
    using init by (simp add: train_loop_def split: sum.splits)
qed

lemma fgt_irrefl: "\<not> fgt x x"
  by (cases x) simp_all

text \<open>
  C5. The best score starts at negative infinity. A checkpoint decision saves exactly when the
  current score is strictly greater than the best so far, and then the score becomes the best;
  otherwise nothing is saved and the best stays, so the best never decreases and a score equal
  to the best saves nothing. The save is a call that stores the state and prints, or raises
  and ends the run. At every end of a training run the trace shows, for the scores observed
  in their order, exactly the writes of the selector that starts at negative infinity, and the
  tracker holds the best of these scores.
\<close>

theorem checkpoint_selector:
  "best_stsb_score (init_state m) = NegInf
   \<and> checkpoint_check env name score s =
       (if fgt score (best_stsb_score s)
        then (case torch_save env (''weights/'' @ name @ ''.pt'') of
                None \<Rightarrow>
                  Done (s\<lparr>best_stsb_score := score,
                          trace := trace s @ [Makedirs, Save_state name, Print_saved name]\<rparr>)
              | Some e \<Rightarrow>
                  Raised e (s\<lparr>best_stsb_score := score,
                              trace := trace s @ [Makedirs, Save_state name]\<rparr>))
        else Done s)
   \<and> best_stsb_score (final (checkpoint_check env name score s))
       = (if fgt score (best_stsb_score s) then score else best_stsb_score s)
   \<and> (best_stsb_score (final (checkpoint_check env name score s)) = best_stsb_score s
        \<or> fgt (best_stsb_score (final (checkpoint_check env name score s))) (best_stsb_score s))
   \<and> checkpoint_check env name (best_stsb_score s) s = Done s
   \<and> marks (trace (final (train_loop env m experiment name writer is_ddp world_size rank)))
       = selector NegInf
           (scores (trace (final (train_loop env m experiment name writer is_ddp world_size rank))))
   \<and> best_stsb_score (final (train_loop env m experiment name writer is_ddp world_size rank))
       = running_best NegInf
           (scores (trace (final (train_loop env m experiment name writer is_ddp world_size rank))))"
proof -
  have run: "tracked (final (train_loop env m experiment name writer is_ddp world_size rank))"
    by (rule tracked_train_loop)
  have step: "best_stsb_score (final (checkpoint_check env name score s))
       = (if fgt score (best_stsb_score s) then score else best_stsb_score s)"
    by (simp add: checkpoint_check_unfold split: option.splits)
  show ?thesis
    using run step checkpoint_check_unfold [of env name score s]
    by (simp add: init_state_def tracked_def fgt_irrefl checkpoint_check_def)
qed

theorem checkpoint_selector_witness:
  "marks (trace (final (train_loop
      (demo_env\<lparr>embeddings1 := (\<lambda>m b. [[3, 4]]),
                embeddings2 := (\<lambda>m b. if m \<le> 2 then [[0, 1]] else if m \<le> 4 then [[1, 0]] else [[0, 1]]),
                pearsonr := (\<lambda>sims labels. Inr (sims ! 0)),
                spearmanr := (\<lambda>sims labels. Inr (sims ! 0))\<rparr>)
      0 (demo_experiment\<lparr>num_epochs := 3\<rparr>) ''run'' True False 1 0)))
     = [Observed (Fin (4 / 5)), Written, Observed (Fin (3 / 5)), Observed (Fin (4 / 5))]
   \<and> best_stsb_score (final (train_loop
      (demo_env\<lparr>embeddings1 := (\<lambda>m b. [[3, 4]]),
                embeddings2 := (\<lambda>m b. if m \<le> 2 then [[0, 1]] else if m \<le> 4 then [[1, 0]] else [[0, 1]]),
                pearsonr := (\<lambda>sims labels. Inr (sims ! 0)),
                spearmanr := (\<lambda>sims labels. Inr (sims ! 0))\<rparr>)
      0 (demo_experiment\<lparr>num_epochs := 3\<rparr>) ''run'' True False 1 0)) = Fin (4 / 5)
   \<and> checkpoint_check demo_env ''a/b'' (Fin 1) (init_state 0)
     = Raised (RuntimeError ''parent directory'')
         ((init_state 0)\<lparr>best_stsb_score := Fin 1, trace := [Makedirs, Save_state ''a/b'']\<rparr>)"
proof -
  let ?env = "demo_env\<lparr>embeddings1 := (\<lambda>m b. [[3, 4]]),
                embeddings2 := (\<lambda>m b. if m \<le> 2 then [[0, 1]] else if m \<le> 4 then [[1, 0]] else [[0, 1]]),
                pearsonr := (\<lambda>sims labels. Inr (sims ! 0)),
                spearmanr := (\<lambda>sims labels. Inr (sims ! 0))\<rparr>"
  have s25: "sqrt 25 = 5" using real_sqrt_abs [of 5] by simp
  have sims: "similarities [[3, 4]] [[0, 1]] = [Fin (4 / 5)]"
    "similarities [[3, 4]] [[1, 0]] = [Fin (3 / 5)]"
    using similarities_rowwise [of "[[3, 4]]" "[[0, 1]]"]
      similarities_rowwise [of "[[3, 4]]" "[[1, 0]]"]
    by (simp_all add: cosine_def dot_def fdiv_def s25)
  have up: "[0 ..< 3] = [0, 1, 2]" by (simp add: upt_rec)
  have sc: "scores (trace (final (train_loop ?env 0 (demo_experiment\<lparr>num_epochs := 3\<rparr>)
               ''run'' True False 1 0)))
       = [Fin (4 / 5), Fin (3 / 5), Fin (4 / 5)]"
    by (simp add: train_loop_def total_steps_def getitem_def
        setup_scheduler_def epoch_body_def dataset_epoch_def after_training_def
        train_batch_def emit_def init_state_def find_val_loader_def validation_phase_def
        evaluation_phase_def evaluate_def Let_def log_metrics_def checkpoint_check_def
        save_best_model_def avg_train_loss_def demo_experiment_def demo_data_def demo_env_def
        up sims scores_def)
  from checkpoint_selector [of 0 ?env "''run''" "Fin 1" "init_state 0"
      "demo_experiment\<lparr>num_epochs := 3\<rparr>" True False 1 0]
    checkpoint_selector [of 0 demo_env "''a/b''" "Fin 1" "init_state 0"
      "demo_experiment\<lparr>num_epochs := 3\<rparr>" True False 1 0]
  show ?thesis
    unfolding sc by (simp add: init_state_def demo_env_def)
qed

section \<open>The reported averages\<close>

subsection \<open>The train total of one dataset-epoch\<close>

lemma total_fold_train_batch:
  "total_train_loss (fold (train_batch env writer rank dn) bs s)
     = foldl fadd (total_train_loss s) (train_losses env (embedder s) bs)"
  by (induction bs arbitrary: s) (simp_all add: train_batch_def Let_def)

lemma total_after_training:
  "total_train_loss (after_training env writer is_ddp rank epoch dn bs s)
     = fsum (train_losses env (embedder s) bs)"
  by (simp add: after_training_def total_fold_train_batch fsum_def emit_def)

lemma fsum_positive_nonempty: "fgt (fsum (map f vs)) (Fin 0) \<Longrightarrow> vs \<noteq> []"
  by (auto simp: fsum_def)

lemma fsum_PosInf_nonempty: "fsum (map f vs) = PosInf \<Longrightarrow> vs \<noteq> []"
  by (auto simp: fsum_def)

lemma avg_val_not_above:
  assumes "0 < n" and "fgt t (Fin 0)"
  shows "\<not> fgt (avg_val_loss t n) (float_div t (real n))"
proof (cases t)
  case (Fin x)
  then have x: "0 < x" using assms(2) by simp
  have "x / (real n + 1 / 1000000) < x / real n"
    using x assms(1) by (intro divide_strict_left_mono) (simp_all add: add_pos_pos)
  then show ?thesis using Fin by (simp add: avg_val_loss_def)
qed (use assms in \<open>simp_all add: avg_val_loss_def\<close>)

lemma avg_val_below_finite:
  assumes "0 < n" and "0 < x"
  shows "fgt (float_div (Fin x) (real n)) (avg_val_loss (Fin x) n)"
proof -
  have "x / (real n + 1 / 1000000) < x / real n"
    using assms by (intro divide_strict_left_mono) (simp_all add: add_pos_pos)
  then show ?thesis by (simp add: avg_val_loss_def)
qed

text \<open>
  C10, as the code has it. The train total of a dataset-epoch is the sum of the losses of its
  own train batches, and the reported average train loss is this total divided by the train
  batch count. With a validation split, the reported average validation loss is the total
  validation loss divided by the validation batch count plus 1e-6. For a positive total this
  quotient is never above the quotient by the batch count alone; it is strictly below it for a
  finite total, the division being exact here, and equal to it for an infinite total.
\<close>

theorem reported_average_losses:
  "avg_train_loss t n = float_div t (real n)
   \<and> avg_val_loss t n = float_div t (real n + 1 / 1000000)
   \<and> total_train_loss (after_training env writer is_ddp rank epoch dataset_name bs s)
       = fsum (train_losses env (embedder s) bs)
   \<and> (getitem data dataset_name = Inr splits \<longrightarrow> getitem splits ''train'' = Inr bs \<longrightarrow>
      bs \<noteq> [] \<longrightarrow> find_val_loader env is_ddp world_size 0 splits = Some vs \<longrightarrow>
        dataset_epoch env data name True is_ddp world_size 0 epoch dataset_name s =
          (let s2 = after_training env True is_ddp 0 epoch dataset_name bs s;
               avg_train = avg_train_loss (fsum (train_losses env (embedder s) bs)) (length bs);
               avg_val = avg_val_loss (fsum (map (val_loss_of env (embedder s2)) vs)) (length vs)
           in evaluation_phase env data name True 0 dataset_name
                (emit (replicate (length vs) Val_forward
                        @ [Print_train_val dataset_name avg_train avg_val,
                           Add_scalar dataset_name ''val_loss'' avg_val (global_step s2)]) s2)))
   \<and> (fgt (fsum (map f vs)) (Fin 0) \<longrightarrow>
        \<not> fgt (avg_val_loss (fsum (map f vs)) (length vs))
              (float_div (fsum (map f vs)) (real (length vs))))
   \<and> (fsum (map f vs) = Fin x \<longrightarrow> 0 < x \<longrightarrow>
        fgt (float_div (Fin x) (real (length vs))) (avg_val_loss (Fin x) (length vs)))
   \<and> (fsum (map f vs) = PosInf \<longrightarrow>
        avg_val_loss PosInf (length vs) = PosInf \<and> float_div PosInf (real (length vs)) = PosInf)"
proof -
  have ep: "dataset_epoch env data name True is_ddp world_size 0 epoch dataset_name s =
          (let s2 = after_training env True is_ddp 0 epoch dataset_name bs s;
               avg_train = avg_train_loss (fsum (train_losses env (embedder s) bs)) (length bs);
               avg_val = avg_val_loss (fsum (map (val_loss_of env (embedder s2)) vs)) (length vs)
           in evaluation_phase env data name True 0 dataset_name
                (emit (replicate (length vs) Val_forward
                        @ [Print_train_val dataset_name avg_train avg_val,
                           Add_scalar dataset_name ''val_loss'' avg_val (global_step s2)]) s2))"
    if "getitem data dataset_name = Inr splits" "getitem splits ''train'' = Inr bs" "bs \<noteq> []"
      "find_val_loader env is_ddp world_size 0 splits = Some vs"
    using that
    by (simp add: dataset_epoch_def validation_phase_def Let_def log_metrics_def emit_def
        total_after_training)
  have le: "\<not> fgt (avg_val_loss (fsum (map f vs)) (length vs))
              (float_div (fsum (map f vs)) (real (length vs)))"
    if "fgt (fsum (map f vs)) (Fin 0)"
    using avg_val_not_above [OF _ that] fsum_positive_nonempty [OF that] by simp
  have lt: "fgt (float_div (Fin x) (real (length vs))) (avg_val_loss (Fin x) (length vs))"
    if "fsum (map f vs) = Fin x" "0 < x"
  proof -
    have "fgt (fsum (map f vs)) (Fin 0)" using that by simp
    then have "vs \<noteq> []" by (rule fsum_positive_nonempty)
    then show ?thesis using avg_val_below_finite [of "length vs" x] that by simp
  qed
  have inf: "avg_val_loss PosInf (length vs) = PosInf \<and> float_div PosInf (real (length vs)) = PosInf"
    if "fsum (map f vs) = PosInf"
    using fsum_PosInf_nonempty [OF that] by (simp add: avg_val_loss_def add_pos_pos)
  show ?thesis
    using ep le lt inf
    by (simp add: avg_train_loss_def avg_val_loss_def total_after_training)
qed

theorem reported_average_losses_witness:
  "dataset_epoch demo_env demo_data ''run'' True False 1 0 0 ''stsb''
       ((init_state 0)\<lparr>total_train_loss := Fin 100\<rparr>)
     = Done \<lparr>embedder = 1, global_step = 1, best_stsb_score = Fin (3 / 8), scheduler_steps = 1,
             total_train_loss = Fin 3,
             trace = [Zero_grad, Forward, Scale_loss, Backward, Scaler_step True, Scaler_update,
                      Scheduler_step, Add_scalar ''stsb'' ''train_loss'' (Fin 3) 1,
                      Val_forward,
                      Print_train_val ''stsb'' (Fin 3) (Fin (4000000 / 1000001)),
                      Add_scalar ''stsb'' ''val_loss'' (Fin (4000000 / 1000001)) 1,
                      Evaluate, Print_stsb ''stsb'' (Fin (1 / 2)) (Fin (1 / 4)),
                      Add_scalar ''stsb'' ''pearsonr'' (Fin (1 / 2)) 1,
                      Add_scalar ''stsb'' ''spearmanr'' (Fin (1 / 4)) 1,
                      Makedirs, Save_state ''run'', Print_saved ''run'']\<rparr>
   \<and> fgt (float_div (Fin 4) 1) (avg_val_loss (Fin 4) 1)
   \<and> avg_val_loss PosInf 2 = PosInf"
proof -
  let ?s = "(init_state (0::nat))\<lparr>total_train_loss := Fin 100\<rparr>"
  have g: "getitem demo_data ''stsb'' = Inr [(''train'', [3]), (''validation'', [4])]"
    "getitem [(''train'', [3::real]), (''validation'', [4])] ''train'' = Inr [3]"
    "find_val_loader demo_env False 1 0 [(''train'', [3::real]), (''validation'', [4])] = Some [4]"
    by (simp_all add: getitem_def demo_data_def find_val_loader_def)
  have p: "[3::real] \<noteq> []" "fsum (map Fin [4]) = Fin 4" "(0::real) < 4"
    "fsum (map (\<lambda>b. PosInf) [1::real, 2]) = PosInf"
    by (simp_all add: fsum_def)
  from reported_average_losses [where t = "Fin 4" and n = 1 and env = demo_env and writer = True
      and is_ddp = False and rank = 0 and epoch = 0 and dataset_name = "''stsb''" and bs = "[3]"
      and s = ?s and data = demo_data and splits = "[(''train'', [3]), (''validation'', [4])]"
      and world_size = 1 and vs = "[4]" and name = "''run''" and f = Fin and x = 4]
    reported_average_losses [where t = "Fin 4" and n = 1 and env = demo_env and writer = True
      and is_ddp = False and rank = 0 and epoch = 0 and dataset_name = "''stsb''" and bs = "[3]"
      and s = ?s and data = demo_data and splits = "[(''train'', [3]), (''validation'', [4])]"
      and world_size = 1 and vs = "[1, 2]" and name = "''run''" and f = "\<lambda>b. PosInf" and x = 4]
  show ?thesis
    using g p
    by (simp add: after_training_def train_batch_def emit_def init_state_def
        evaluation_phase_def evaluate_def Let_def log_metrics_def checkpoint_check_def
        save_best_model_def avg_train_loss_def avg_val_loss_def demo_env_def demo_data_def
        getitem_def fsum_def)
qed

text \<open>
  C10 as stated fails: a validation loss that has overflowed to infinity makes the total
  positive and infinite, and the reported average is infinite as the mean is.
\<close>

theorem infinite_validation_total:
  "dataset_epoch (demo_env\<lparr>val_loss_of := (\<lambda>m b. PosInf)\<rparr>) demo_data ''run'' True False 1 0 0
       ''stsb'' (init_state 0)
     = Done \<lparr>embedder = 1, global_step = 1, best_stsb_score = Fin (3 / 8), scheduler_steps = 1,
             total_train_loss = Fin 3,
             trace = [Zero_grad, Forward, Scale_loss, Backward, Scaler_step True, Scaler_update,
                      Scheduler_step, Add_scalar ''stsb'' ''train_loss'' (Fin 3) 1,
                      Val_forward,
                      Print_train_val ''stsb'' (Fin 3) PosInf,
                      Add_scalar ''stsb'' ''val_loss'' PosInf 1,
                      Evaluate, Print_stsb ''stsb'' (Fin (1 / 2)) (Fin (1 / 4)),
                      Add_scalar ''stsb'' ''pearsonr'' (Fin (1 / 2)) 1,
                      Add_scalar ''stsb'' ''spearmanr'' (Fin (1 / 4)) 1,
                      Makedirs, Save_state ''run'', Print_saved ''run'']\<rparr>
   \<and> fsum (map (\<lambda>b. PosInf) [4::real]) = PosInf
   \<and> fgt PosInf (Fin 0)
   \<and> float_div PosInf (real (length [4::real])) = PosInf
   \<and> \<not> fgt (float_div PosInf (real (length [4::real]))) (avg_val_loss PosInf (length [4::real]))"
  by (simp add: dataset_epoch_def after_training_def train_batch_def emit_def init_state_def
      find_val_loader_def validation_phase_def evaluation_phase_def evaluate_def Let_def
      log_metrics_def checkpoint_check_def save_best_model_def avg_train_loss_def
      avg_val_loss_def demo_env_def demo_data_def getitem_def fsum_def)

section \<open>A dataset without a validation split\<close>

subsection \<open>Events added by one dataset-epoch\<close>

lemma appends_refl: "appends P s s"
  by (simp add: appends_def)

lemma appends_trans: "appends P s s1 \<Longrightarrow> appends P s1 s2 \<Longrightarrow> appends P s s2"
  by (auto simp: appends_def)

lemma appends_emit: "list_all P evs \<Longrightarrow> appends P s (emit evs s)"
  by (simp add: appends_def emit_def)

lemma appends_train_batch:
  "appends (\<lambda>e. \<not> validation_event e) s (train_batch env writer rank dn b s)"
  by (simp add: appends_def train_batch_def Let_def log_metrics_def)

lemma appends_fold_train_batch:
  "appends (\<lambda>e. \<not> validation_event e) s (fold (train_batch env writer rank dn) bs s)"
proof (induction bs arbitrary: s)
  case Nil
  show ?case by (simp add: appends_refl)
next
  case (Cons b bs)
  show ?case
    using appends_trans [OF appends_train_batch Cons.IH] by simp
qed

lemma appends_after_training:
  "appends (\<lambda>e. \<not> validation_event e) s (after_training env writer is_ddp rank epoch dn bs s)"
proof -
  let ?s1 = "(if is_ddp then emit [Set_epoch dn epoch] s else s)\<lparr>total_train_loss := Fin 0\<rparr>"
  have "appends (\<lambda>e. \<not> validation_event e) s ?s1"
    by (simp add: appends_def emit_def)
  then show ?thesis
    unfolding after_training_def by (rule appends_trans) (rule appends_fold_train_batch)
qed

lemma appends_evaluation_phase:
  "appends (\<lambda>e. \<not> validation_event e) s
     (final (evaluation_phase env data name writer rank dn s))"
  by (simp add: appends_def evaluation_phase_def checkpoint_check_unfold emit_def log_metrics_def
      split: sum.splits prod.splits option.splits)

lemma find_val_loader_None:
  assumes "list_all (\<lambda>k. \<not> str_contains ''validation'' k) (map fst splits)"
  shows "find_val_loader env is_ddp world_size rank splits = None"
proof -
  have "filter (str_contains ''validation'') (map fst splits) = []"
    using assms by (simp add: filter_empty_conv list_all_iff)
  then show ?thesis by (simp add: find_val_loader_def)
qed

lemma appends_dataset_epoch_no_validation:
  assumes "getitem data dn = Inr splits"
    and "list_all (\<lambda>k. \<not> str_contains ''validation'' k) (map fst splits)"
  shows "appends (\<lambda>e. \<not> validation_event e) s
           (final (dataset_epoch env data name writer is_ddp ws rank epoch dn s))"
proof (cases "getitem splits ''train''")
  case (Inl e)
  then show ?thesis using assms(1) by (simp add: dataset_epoch_def appends_refl)
next
  case (Inr bs)
  let ?s2 = "after_training env writer is_ddp rank epoch dn bs s"
  let ?s3 = "validation_phase env writer rank dn
               (avg_train_loss (total_train_loss ?s2) (length bs)) None ?s2"
  have a: "appends (\<lambda>e. \<not> validation_event e) s ?s2" by (rule appends_after_training)
  have "appends (\<lambda>e. \<not> validation_event e) ?s2 ?s3"
    by (simp add: validation_phase_def appends_def emit_def)
  then have b: "appends (\<lambda>e. \<not> validation_event e) s ?s3" using a appends_trans by blast
  have c: "appends (\<lambda>e. \<not> validation_event e) s
             (final (evaluation_phase env data name writer rank dn ?s3))"
    using appends_trans [OF b appends_evaluation_phase] .
  show ?thesis
  proof (cases "bs = []")
    case True
    then show ?thesis
      using assms(1) Inr a by (simp add: dataset_epoch_def Let_def)
  next
    case False
    then show ?thesis
      using assms(1) Inr c find_val_loader_None [OF assms(2), of env is_ddp ws rank]
      by (simp add: dataset_epoch_def Let_def)
  qed
qed

text \<open>
  C1, as the code has it. In a dataset-epoch whose dataset has no split with "validation" in
  its name, nothing of a validation pass is added to the trace: no validation forward call,
  no validation-loss message, no validation-loss entry. When the train split has at least one
  batch, the coordinating process prints the train-loss message and still calls the similarity
  evaluation; when this returns, both correlations are printed and logged and the checkpoint
  decision is made; when it raises, the exception ends the run after the message. Every other
  process adds nothing after the training batches.
\<close>

theorem no_validation_split:
  "(getitem data dataset_name = Inr splits \<longrightarrow>
    list_all (\<lambda>k. \<not> str_contains ''validation'' k) (map fst splits) \<longrightarrow>
      take (length (trace s))
          (trace (final (dataset_epoch env data name writer is_ddp world_size rank epoch
                           dataset_name s))) = trace s
      \<and> list_all (\<lambda>e. \<not> validation_event e)
          (drop (length (trace s))
             (trace (final (dataset_epoch env data name writer is_ddp world_size rank epoch
                              dataset_name s)))))
   \<and> (getitem data dataset_name = Inr splits \<longrightarrow>
      list_all (\<lambda>k. \<not> str_contains ''validation'' k) (map fst splits) \<longrightarrow>
      getitem splits ''train'' = Inr bs \<longrightarrow> bs \<noteq> [] \<longrightarrow>
        dataset_epoch env data name writer is_ddp world_size rank epoch dataset_name s =
          (let s2 = after_training env writer is_ddp rank epoch dataset_name bs s;
               msg = Print_train_noval dataset_name
                       (avg_train_loss (fsum (train_losses env (embedder s) bs)) (length bs))
           in if writer \<and> rank = 0 then
                (case evaluate env (embedder s2) data of
                   Inl e \<Rightarrow> Raised e (emit [msg, Evaluate] s2)
                 | Inr (r0, r1) \<Rightarrow>
                     checkpoint_check env name (fhalf (fadd r0 r1))
                       (emit [msg, Evaluate, Print_stsb dataset_name r0 r1,
                              Add_scalar dataset_name ''pearsonr'' r0 (global_step s2),
                              Add_scalar dataset_name ''spearmanr'' r1 (global_step s2)] s2))
              else Done s2))"
proof -
  have a: "take (length (trace s))
          (trace (final (dataset_epoch env data name writer is_ddp world_size rank epoch
                           dataset_name s))) = trace s
      \<and> list_all (\<lambda>e. \<not> validation_event e)
          (drop (length (trace s))
             (trace (final (dataset_epoch env data name writer is_ddp world_size rank epoch
                              dataset_name s))))"
    if "getitem data dataset_name = Inr splits"
      "list_all (\<lambda>k. \<not> str_contains ''validation'' k) (map fst splits)"
    using appends_dataset_epoch_no_validation [OF that, of s env name writer is_ddp world_size
        rank epoch]
    by (auto simp: appends_def)
  have b: "dataset_epoch env data name writer is_ddp world_size rank epoch dataset_name s =
          (let s2 = after_training env writer is_ddp rank epoch dataset_name bs s;
               msg = Print_train_noval dataset_name
                       (avg_train_loss (fsum (train_losses env (embedder s) bs)) (length bs))
           in if writer \<and> rank = 0 then
                (case evaluate env (embedder s2) data of
                   Inl e \<Rightarrow> Raised e (emit [msg, Evaluate] s2)
                 | Inr (r0, r1) \<Rightarrow>
                     checkpoint_check env name (fhalf (fadd r0 r1))
                       (emit [msg, Evaluate, Print_stsb dataset_name r0 r1,
                              Add_scalar dataset_name ''pearsonr'' r0 (global_step s2),
                              Add_scalar dataset_name ''spearmanr'' r1 (global_step s2)] s2))
              else Done s2)"
    if h: "getitem data dataset_name = Inr splits"
      "list_all (\<lambda>k. \<not> str_contains ''validation'' k) (map fst splits)"
      "getitem splits ''train'' = Inr bs" "bs \<noteq> []"
  proof (cases "writer \<and> rank = 0")
    case True
    then show ?thesis
      using h find_val_loader_None [OF h(2), of env is_ddp world_size rank]
      by (simp add: dataset_epoch_def validation_phase_def evaluation_phase_def Let_def
          log_metrics_def emit_def total_after_training split: sum.splits prod.splits)
  next
    case False
    then show ?thesis
      using h find_val_loader_None [OF h(2), of env is_ddp world_size rank]
      by (auto simp: dataset_epoch_def validation_phase_def evaluation_phase_def Let_def)
  qed
  show ?thesis using a b by blast
qed

theorem no_validation_split_witness:
  "dataset_epoch demo_env demo_data ''run'' True False 1 0 0 ''nli'' (init_state 0)
     = Done \<lparr>embedder = 2, global_step = 2, best_stsb_score = Fin (3 / 8), scheduler_steps = 2,
             total_train_loss = Fin 3,
             trace = [Zero_grad, Forward, Scale_loss, Backward, Scaler_step True, Scaler_update,
                      Scheduler_step, Add_scalar ''nli'' ''train_loss'' (Fin 1) 1,
                      Zero_grad, Forward, Scale_loss, Backward, Scaler_step True, Scaler_update,
                      Scheduler_step, Add_scalar ''nli'' ''train_loss'' (Fin 2) 2,
                      Print_train_noval ''nli'' (Fin (3 / 2)),
                      Evaluate, Print_stsb ''nli'' (Fin (1 / 2)) (Fin (1 / 4)),
                      Add_scalar ''nli'' ''pearsonr'' (Fin (1 / 2)) 2,
                      Add_scalar ''nli'' ''spearmanr'' (Fin (1 / 4)) 2,
                      Makedirs, Save_state ''run'', Print_saved ''run'']\<rparr>
   \<and> list_all (\<lambda>e. \<not> validation_event e)
       (trace (final (dataset_epoch demo_env demo_data ''run'' True False 1 0 0 ''nli''
                        (init_state 0))))"
proof -
  have g: "getitem demo_data ''nli'' = Inr [(''train'', [1, 2])]"
    "getitem [(''train'', [1, 2::real])] ''train'' = Inr [1, 2]"
    by (simp_all add: getitem_def demo_data_def)
  have p: "[1, 2::real] \<noteq> []"
    "list_all (\<lambda>k. \<not> str_contains ''validation'' k) (map fst [(''train'', [1, 2::real])])"
    "trace (init_state (0::nat)) = []"
    by (simp_all add: init_state_def)
  from no_validation_split [of demo_data "''nli''" "[(''train'', [1, 2])]" "init_state 0"
      demo_env "''run''" True False 1 0 0 "[1, 2]"]
  show ?thesis
    using g p
    by (simp add: after_training_def train_batch_def emit_def init_state_def
        evaluate_def Let_def log_metrics_def checkpoint_check_def avg_train_loss_def
        save_best_model_def demo_env_def demo_data_def getitem_def fsum_def)
qed

text \<open>
  C1 as stated fails: \<^verbatim>\<open>nli\<close> has only a train split, and the run on the coordinating process
  evaluates, logs both correlations and writes a checkpoint after the train-loss message.
\<close>

theorem evaluation_without_validation_split:
  "getitem demo_data ''nli'' = Inr [(''train'', [1, 2])]
   \<and> filter (str_contains ''validation'') (map fst [(''train'', [1, 2::real])]) = []
   \<and> trace (final (train_loop demo_env 0 demo_experiment ''run'' True False 1 0))
     = [Print_epoch 1 1,
        Zero_grad, Forward, Scale_loss, Backward, Scaler_step True, Scaler_update,
        Scheduler_step, Add_scalar ''nli'' ''train_loss'' (Fin 1) 1,
        Zero_grad, Forward, Scale_loss, Backward, Scaler_step True, Scaler_update,
        Scheduler_step, Add_scalar ''nli'' ''train_loss'' (Fin 2) 2,
        Print_train_noval ''nli'' (Fin (3 / 2)),
        Evaluate, Print_stsb ''nli'' (Fin (1 / 2)) (Fin (1 / 4)),
        Add_scalar ''nli'' ''pearsonr'' (Fin (1 / 2)) 2,
        Add_scalar ''nli'' ''spearmanr'' (Fin (1 / 4)) 2,
        Makedirs, Save_state ''run'', Print_saved ''run'', Print_blank]"
  by (simp add: run_defs demo_experiment_def demo_data_def demo_env_def)

section \<open>Building the schedule\<close>

text \<open>
  C2, as the code has it. \<^verbatim>\<open>setup_scheduler\<close> compares nothing: it hands both numbers to the
  builder of the library and returns its answer. The training loop fails at this point exactly
  when that builder fails, before any batch is processed, and otherwise goes on to the epochs.
\<close>

theorem setup_scheduler_forwards:
  "setup_scheduler build n_warmup n_total = build n_warmup n_total
   \<and> (total_steps experiment = Inr t \<longrightarrow>
      get_linear_schedule_with_warmup env (warmup_steps experiment) t = Inl e \<longrightarrow>
        train_loop env m experiment name writer is_ddp world_size rank = Raised e (init_state m))
   \<and> (total_steps experiment = Inr t \<longrightarrow>
      get_linear_schedule_with_warmup env (warmup_steps experiment) t = Inr scheduler \<longrightarrow>
        train_loop env m experiment name writer is_ddp world_size rank
          = for_each (epoch_body env experiment name writer is_ddp world_size rank)
              [0 ..< nat (num_epochs experiment)] (init_state m))"
  by (simp add: setup_scheduler_def train_loop_def)

theorem setup_scheduler_forwards_witness:
  "train_loop (demo_env\<lparr>get_linear_schedule_with_warmup := (\<lambda>w t. Inl (ValueError ''warmup''))\<rparr>)
       0 demo_experiment ''run'' True False 1 0
     = Raised (ValueError ''warmup'') (init_state 0)
   \<and> train_loop demo_env 0 demo_experiment ''run'' True False 1 0
     = for_each (epoch_body demo_env demo_experiment ''run'' True False 1 0)
         [0 ..< nat (num_epochs demo_experiment)] (init_state 0)"
proof -
  have t: "total_steps demo_experiment = Inr 2"
    by (simp add: total_steps_def demo_experiment_def demo_data_def getitem_def)
  have b: "get_linear_schedule_with_warmup
             (demo_env\<lparr>get_linear_schedule_with_warmup := (\<lambda>w t. Inl (ValueError ''warmup''))\<rparr>)
             (warmup_steps demo_experiment) 2 = Inl (ValueError ''warmup'')"
    "get_linear_schedule_with_warmup demo_env (warmup_steps demo_experiment) 2
       = Inr \<lparr>num_warmup_steps = 5, num_training_steps = 2\<rparr>"
    by (simp_all add: demo_env_def demo_experiment_def)
  from setup_scheduler_forwards [of "get_linear_schedule_with_warmup demo_env" 5 2
      demo_experiment 2
      "demo_env\<lparr>get_linear_schedule_with_warmup := (\<lambda>w t. Inl (ValueError ''warmup''))\<rparr>"
      "ValueError ''warmup''" 0 "''run''" True False 1 0 "\<lparr>num_warmup_steps = 5, num_training_steps = 2\<rparr>"]
    setup_scheduler_forwards [of "get_linear_schedule_with_warmup demo_env" 5 2
      demo_experiment 2 demo_env
      "ValueError ''warmup''" 0 "''run''" True False 1 0 "\<lparr>num_warmup_steps = 5, num_training_steps = 2\<rparr>"]
  show ?thesis using t b by simp
qed

text \<open>
  C2 as stated fails with a builder that accepts its arguments: 5 warmup steps against a
  total of 2 steps give a schedule, and the training loop runs to its end.
\<close>

theorem warmup_exceeds_total:
  "warmup_steps demo_experiment = 5
   \<and> total_steps demo_experiment = Inr 2
   \<and> setup_scheduler (get_linear_schedule_with_warmup demo_env) 5 2
       = Inr \<lparr>num_warmup_steps = 5, num_training_steps = 2\<rparr>
   \<and> train_loop demo_env 0 demo_experiment ''run'' False False 1 0
       = Done \<lparr>embedder = 2, global_step = 2, best_stsb_score = NegInf, scheduler_steps = 2,
               total_train_loss = Fin 3,
               trace = [Print_epoch 1 1,
                 Zero_grad, Forward, Scale_loss, Backward, Scaler_step True, Scaler_update,
                 Scheduler_step,
                 Zero_grad, Forward, Scale_loss, Backward, Scaler_step True, Scaler_update,
                 Scheduler_step, Print_blank]\<rparr>"
  by (simp add: run_defs demo_experiment_def demo_data_def demo_env_def)

end
